theory Spec2Isabelle
  imports Complex_Main "HOL-Library.Log_Nat"
begin

section \<open>Book ERP: the order-to-cash pipeline of \<^verbatim>\<open>book_erp_v2\<close>\<close>

text \<open>
  A shallow embedding of the request handlers of \<^verbatim>\<open>main.py\<close> and of the helpers of
  \<^verbatim>\<open>services.py\<close> (the v2 pipeline: sales order, challan, invoice, payment, return
  note), and of the status derivation of the older \<^verbatim>\<open>app.py\<close>.

  \<^item> A table is the list of its rows in row order; \<^verbatim>\<open>session.get(T, id)\<close> is the first
    row with that id, \<^verbatim>\<open>select(T).where(c).all()\<close> is \<open>filter\<close>, \<^verbatim>\<open>.first()\<close> is
    \<open>find\<close>.
  \<^item> Python \<^verbatim>\<open>int\<close> is \<open>int\<close>, \<^verbatim>\<open>str\<close> is \<open>string\<close>, a \<^verbatim>\<open>date\<close> is its proleptic
    ordinal (\<^verbatim>\<open>toordinal()\<close>).
  \<^item> A finite \<^verbatim>\<open>float\<close> is the rational number it denotes, so comparisons are exact;
    every arithmetic operation that rounds is taken from a record of operations
    (\<open>fpu\<close>), so the general theorems hold for every rounding behaviour. NaN and
    the infinities are outside the model.
  \<^item> A handler runs in one \<^verbatim>\<open>with Session(engine) as s\<close> block: the model keeps the
    committed database and the session's working copy; \<^verbatim>\<open>s.commit()\<close> makes the working
    copy the committed one, and an \<^verbatim>\<open>HTTPException\<close> leaves the committed one (the
    session is closed, its pending changes are rolled back). A handler returns its
    outcome together with the database it leaves committed.
  \<^item> The database is SQLite, the default of \<^verbatim>\<open>db.py\<close>: the key of a new row is one more
    than the largest key of its table, and an integer column holds 64 bits. The ids that
    a handler is called with are taken within that range, as the ids of the stored rows
    are; a quantity that a handler computes may leave it, and is then refused by the
    database driver (\<open>fits_integer\<close>).
  \<^item> Columns that no modelled function reads (titles, addresses, transporter, notes,
    surrogate ids of line tables) are left out of the records.
\<close>

subsection \<open>Floating point\<close>

record fpu =
  f_add :: "rat \<Rightarrow> rat \<Rightarrow> rat"
  f_sub :: "rat \<Rightarrow> rat \<Rightarrow> rat"
  f_mul :: "rat \<Rightarrow> rat \<Rightarrow> rat"
  f_div :: "rat \<Rightarrow> rat \<Rightarrow> rat"
  f_round2 :: "rat \<Rightarrow> rat"
  f_of_int :: "int \<Rightarrow> rat"
  f_sum :: "rat list \<Rightarrow> rat"

text \<open>
  \<open>f_round2 x\<close> is \<^verbatim>\<open>round(x, 2)\<close>, \<open>f_of_int\<close> the conversion of an \<^verbatim>\<open>int\<close> operand
  in mixed arithmetic, \<open>f_sum\<close> the built-in \<^verbatim>\<open>sum\<close> over floats.

  The instance \<open>binary64\<close> is IEEE 754 double precision with round-to-nearest-even
  on finite values below the overflow threshold: \<open>fl x\<close> is the double nearest to
  the rational \<open>x\<close>. Its \<open>b64_sum\<close> adds from left to right, starting from 0; the
  interpreter from version 3.12 on adds floats with a compensation term, which can give
  another last digit for two or more numbers. The general theorems are about every
  \<open>f_sum\<close>, and the examples never sum more than one number.
\<close>

text \<open>Rounding a fraction \<open>p / q\<close> (with \<open>0 < q\<close>) to the nearest integer, ties to even.\<close>

fun round_half_even_q :: "int \<times> int \<Rightarrow> int" where
  "round_half_even_q (p, q) =
     (let f = p div q; r = 2 * (p mod q)
      in if r < q then f else if q < r then f + 1 else if even f then f else f + 1)"

definition round_half_even :: "rat \<Rightarrow> int" where
  "round_half_even x = round_half_even_q (quotient_of x)"

function p2 :: "int \<Rightarrow> rat" where
  "p2 e = (if e \<le> 0 then 1 else 2 * p2 (e - 1))"
  by pat_completeness auto
termination
  by (relation "measure nat") auto

definition pow2 :: "int \<Rightarrow> rat" where
  "pow2 e = (if 0 \<le> e then p2 e else 1 / p2 (- e))"

text \<open>For a fraction \<open>p / q\<close> other than 0: \<open>lg\<close> is the exponent of its leading bit, \<open>u\<close>
  the distance between neighbouring doubles at that magnitude (for the subnormal range,
  the smallest one).\<close>

fun fl_q :: "int \<times> int \<Rightarrow> rat" where
  "fl_q (p, q) =
     (if p = 0 then 0
      else let a = of_int \<bar>p\<bar> / of_int q;
               e = bitlen \<bar>p\<bar> - bitlen q;
               lg = (if pow2 e \<le> a then e else e - 1);
               u = pow2 (max lg (- 1022) - 52)
           in of_int (sgn p) * (of_int (round_half_even (a / u)) * u))"

definition fl :: "rat \<Rightarrow> rat" where
  "fl x = fl_q (quotient_of x)"

definition b64_add :: "rat \<Rightarrow> rat \<Rightarrow> rat" where
  "b64_add a b = fl (a + b)"

definition b64_sub :: "rat \<Rightarrow> rat \<Rightarrow> rat" where
  "b64_sub a b = fl (a - b)"

definition b64_mul :: "rat \<Rightarrow> rat \<Rightarrow> rat" where
  "b64_mul a b = fl (a * b)"

definition b64_div :: "rat \<Rightarrow> rat \<Rightarrow> rat" where
  "b64_div a b = fl (a / b)"

text \<open>\<^verbatim>\<open>round(x, 2)\<close> rounds the exact value of \<open>x\<close> to two decimals, ties to even, and
  gives the double nearest to that decimal.\<close>

definition b64_round2 :: "rat \<Rightarrow> rat" where
  "b64_round2 x = fl (of_int (round_half_even (x * 100)) / 100)"

definition b64_of_int :: "int \<Rightarrow> rat" where
  "b64_of_int n = fl (of_int n)"

definition b64_sum :: "rat list \<Rightarrow> rat" where
  "b64_sum xs = foldl b64_add 0 xs"

definition binary64 :: fpu where
  "binary64 =
     \<lparr> f_add = b64_add, f_sub = b64_sub, f_mul = b64_mul, f_div = b64_div,
       f_round2 = b64_round2, f_of_int = b64_of_int, f_sum = b64_sum \<rparr>"

text \<open>Python's \<^verbatim>\<open>max(a, b)\<close> and \<^verbatim>\<open>min(a, b)\<close>: the first argument unless the second is
  strictly better.\<close>

definition py_max :: "rat \<Rightarrow> rat \<Rightarrow> rat" where
  "py_max a b = (if a < b then b else a)"

definition py_min :: "rat \<Rightarrow> rat \<Rightarrow> rat" where
  "py_min a b = (if b < a then b else a)"

subsection \<open>Strings: \<^verbatim>\<open>startswith\<close>, \<^verbatim>\<open>replace\<close>, \<^verbatim>\<open>int\<close>, \<^verbatim>\<open>str\<close>, \<^verbatim>\<open>zfill\<close>\<close>

fun startswith :: "string \<Rightarrow> string \<Rightarrow> bool" where
  "startswith x [] = True"
| "startswith [] (p # ps) = False"
| "startswith (c # cs) (p # ps) = (c = p \<and> startswith cs ps)"

text \<open>\<^verbatim>\<open>s.replace(old, new)\<close>: the occurrences of \<open>old\<close> are found left to right and do
  not overlap. For an empty \<open>old\<close> Python puts \<open>new\<close> around every character.\<close>

function replace_from :: "string \<Rightarrow> string \<Rightarrow> string \<Rightarrow> string" where
  "replace_from old new [] = []"
| "replace_from old new (c # cs) =
     (if old \<noteq> [] \<and> startswith (c # cs) old
      then new @ replace_from old new (drop (length old) (c # cs))
      else c # replace_from old new cs)"
  by pat_completeness auto
termination
  by (relation "measure (\<lambda>(old, new, s). length s)") (auto split: list.splits)

definition py_replace :: "string \<Rightarrow> string \<Rightarrow> string \<Rightarrow> string" where
  "py_replace s old new =
     (if old = [] then new @ concat (map (\<lambda>c. c # new) s) else replace_from old new s)"

text \<open>A character of a \<open>string\<close> is read as the code point of that number, so the
  strings of the model are Python's strings over the code points 0 to 255.

  \<^verbatim>\<open>int(s)\<close>: surrounding white space is dropped, then an optional sign, then decimal
  digits, where single underscores may stand between digits. \<open>None\<close> is \<^verbatim>\<open>ValueError\<close>.
  The white space of \<^verbatim>\<open>int\<close> is tab, line feed, vertical tab, form feed, carriage
  return and space, and the two spaces above 127 (next line, no-break space), which
  \<^verbatim>\<open>int\<close> turns into a space before it parses; the separators 28 to 31 are white space
  for \<^verbatim>\<open>str.strip\<close> but not for \<^verbatim>\<open>int\<close>. The only decimal digits up to 255 are
  \<^verbatim>\<open>0\<close> to \<^verbatim>\<open>9\<close>.\<close>

definition is_space :: "char \<Rightarrow> bool" where
  "is_space c =
     (let n = (of_char c :: int) in (9 \<le> n \<and> n \<le> 13) \<or> n = 32 \<or> n = 133 \<or> n = 160)"

definition is_digit :: "char \<Rightarrow> bool" where
  "is_digit c = (let n = (of_char c :: int) in 48 \<le> n \<and> n \<le> 57)"

definition digit_val :: "char \<Rightarrow> int" where
  "digit_val c = of_char c - 48"

definition strip :: "string \<Rightarrow> string" where
  "strip s = rev (dropWhile is_space (rev (dropWhile is_space s)))"

text \<open>The interpreter converts between \<^verbatim>\<open>int\<close> and decimal text only up to 4300 digits
  (\<^verbatim>\<open>sys.get_int_max_str_digits()\<close>, the default): \<^verbatim>\<open>int(s)\<close> and \<^verbatim>\<open>str(n)\<close> raise
  \<^verbatim>\<open>ValueError\<close> beyond. The digits are counted without sign and underscores, leading
  zeros included.\<close>

definition max_str_digits :: int where
  "max_str_digits = 4300"

fun count_digits :: "string \<Rightarrow> int" where
  "count_digits [] = 0"
| "count_digits (c # cs) = (if is_digit c then 1 + count_digits cs else count_digits cs)"

fun digits_acc :: "int \<Rightarrow> string \<Rightarrow> int option" where
  "digits_acc acc [] = Some acc"
| "digits_acc acc (c # cs) =
     (if is_digit c then digits_acc (10 * acc + digit_val c) cs
      else if c = CHR ''_'' then
        (case cs of
           [] \<Rightarrow> None
         | d # ds \<Rightarrow> if is_digit d then digits_acc acc cs else None)
      else None)"

definition py_digits :: "string \<Rightarrow> int option" where
  "py_digits s =
     (case s of
        [] \<Rightarrow> None
      | c # cs \<Rightarrow>
          if is_digit c \<and> count_digits s \<le> max_str_digits then digits_acc (digit_val c) cs
          else None)"

definition py_int :: "string \<Rightarrow> int option" where
  "py_int s =
     (case strip s of
        [] \<Rightarrow> None
      | c # cs \<Rightarrow>
          if c = CHR ''-'' then map_option uminus (py_digits cs)
          else if c = CHR ''+'' then py_digits cs
          else py_digits (c # cs))"

text \<open>\<^verbatim>\<open>str(n)\<close> for an \<^verbatim>\<open>int\<close>: \<open>decimal n\<close> is the decimal numeral of \<open>n\<close>, and
  \<open>None\<close> is the \<^verbatim>\<open>ValueError\<close> for a numeral of more than 4300 digits. Then
  \<^verbatim>\<open>s.zfill(width)\<close>.\<close>

definition digit_char :: "int \<Rightarrow> char" where
  "digit_char d = char_of (48 + d)"

function digits_of :: "int \<Rightarrow> string" where
  "digits_of n = (if n < 10 then [digit_char n] else digits_of (n div 10) @ [digit_char (n mod 10)])"
  by pat_completeness auto
termination
  by (relation "measure nat") auto

declare digits_of.simps [simp del]

definition decimal :: "int \<Rightarrow> string" where
  "decimal n = (if n < 0 then CHR ''-'' # digits_of (- n) else digits_of n)"

definition py_str :: "int \<Rightarrow> string option" where
  "py_str n = (if count_digits (decimal n) \<le> max_str_digits then Some (decimal n) else None)"

definition zfill :: "nat \<Rightarrow> string \<Rightarrow> string" where
  "zfill width s =
     (if width \<le> length s then s
      else let pad = replicate (width - length s) CHR ''0''
           in case s of
                [] \<Rightarrow> pad
              | c # cs \<Rightarrow> if c = CHR ''+'' \<or> c = CHR ''-'' then c # pad @ cs else pad @ s)"

text \<open>\<^verbatim>\<open>max(nums)\<close> on a non-empty list.\<close>

fun py_max_list :: "int list \<Rightarrow> int" where
  "py_max_list [] = 0"
| "py_max_list (x # xs) = foldl (\<lambda>m y. if m < y then y else m) x xs"

subsection \<open>Tables (\<^verbatim>\<open>models.py\<close>)\<close>

record item =
  it_id :: int
  it_gst_percent :: rat
  it_sale_price :: rat

record party =
  p_id :: int
  p_state :: "string option"
  p_credit_limit :: rat
  p_payment_terms_days :: int
  p_is_blocked :: bool

record party_price =
  pp_party_id :: int
  pp_item_id :: int
  pp_discount_percent :: rat

record stock =
  st_warehouse_id :: int
  st_item_id :: int
  st_qty :: int

record sales_order =
  so_id :: int
  so_no :: string
  so_party_id :: int
  so_warehouse_id :: int
  so_status :: string

record sales_order_line =
  sol_so_id :: int
  sol_item_id :: int
  sol_qty :: int
  sol_rate :: rat
  sol_gst_percent :: rat
  sol_discount_percent :: rat

record challan =
  dc_id :: int
  dc_no :: string
  dc_so_id :: int
  dc_status :: string

record challan_line =
  dcl_dc_id :: int
  dcl_item_id :: int
  dcl_qty :: int

record invoice =
  inv_id :: int
  inv_invoice_no :: string
  inv_dc_id :: int
  inv_party_id :: int
  inv_warehouse_id :: int
  inv_invoice_date :: int
  inv_place_of_supply_state :: "string option"
  inv_status :: string

record invoice_line =
  il_invoice_id :: int
  il_item_id :: int
  il_qty :: int
  il_rate :: rat
  il_gst_percent :: rat
  il_discount_percent :: rat

record payment =
  pay_party_id :: int
  pay_invoice_id :: "int option"
  pay_amount :: rat

record return_note =
  rn_id :: int
  rn_no :: string
  rn_party_id :: int
  rn_warehouse_id :: int
  rn_status :: string

record return_line =
  rl_return_id :: int
  rl_item_id :: int
  rl_qty :: int

record db =
  items :: "item list"
  parties :: "party list"
  party_prices :: "party_price list"
  stocks :: "stock list"
  sales_orders :: "sales_order list"
  sales_order_lines :: "sales_order_line list"
  challans :: "challan list"
  challan_lines :: "challan_line list"
  invoices :: "invoice list"
  invoice_lines :: "invoice_line list"
  payments :: "payment list"
  return_notes :: "return_note list"
  return_lines :: "return_line list"

text \<open>The session: the committed database and the working copy that the session's
  queries read and its writes change.\<close>

record session =
  committed :: db
  working :: db

definition open_session :: "db \<Rightarrow> session" where
  "open_session d = \<lparr> committed = d, working = d \<rparr>"

definition commit :: "session \<Rightarrow> session" where
  "commit s = s \<lparr> committed := working s \<rparr>"

text \<open>A new row's integer primary key: one more than the largest key of the table.\<close>

definition next_id :: "int list \<Rightarrow> int" where
  "next_id ids = (if ids = [] then 1 else py_max_list ids + 1)"

text \<open>Every \<^verbatim>\<open>raise HTTPException(status, detail)\<close> of the handlers, and the
  exceptions that the handlers do not catch: the \<^verbatim>\<open>ValueError\<close> of
  \<^verbatim>\<open>date.fromisoformat\<close> and of \<^verbatim>\<open>str\<close>, the \<^verbatim>\<open>OverflowError\<close> of the database
  driver, and the \<^verbatim>\<open>DetachedInstanceError\<close> of the object-relational mapper.\<close>

datatype error =
    SO_not_found
  | SO_not_approved
  | Insufficient_stock int int
  | Stock_cannot_go_negative
  | Challan_not_available
  | SO_not_found_for_challan
  | Party_not_found
  | Party_is_BLOCKED
  | Overdue_pending rat
  | Credit_limit_exceeded rat rat rat
  | Invoice_not_found
  | Return_note_not_open
  | ValueError
  | OverflowError
  | DetachedInstanceError

text \<open>An integer that the driver can hand to the database. A value outside is refused
  with \<^verbatim>\<open>OverflowError\<close> when the session sends it, which is at the next flush: before
  the session's next query, or with its commit.\<close>

definition fits_integer :: "int \<Rightarrow> bool" where
  "fits_integer q = (- 9223372036854775808 \<le> q \<and> q \<le> 9223372036854775807)"

subsection \<open>\<^verbatim>\<open>services.py\<close>: stock, price, totals\<close>

definition stock_of :: "int \<Rightarrow> int \<Rightarrow> stock \<Rightarrow> bool" where
  "stock_of w i st = (st_warehouse_id st = w \<and> st_item_id st = i)"

text \<open>\<^verbatim>\<open>get_stock\<close>: the row of the pair; an absent row is added with quantity 0 and
  the session is committed at once, with everything pending in it.\<close>

definition get_stock :: "session \<Rightarrow> int \<Rightarrow> int \<Rightarrow> stock \<times> session" where
  "get_stock s w i =
     (case find (stock_of w i) (stocks (working s)) of
        Some st \<Rightarrow> (st, s)
      | None \<Rightarrow>
          let st = \<lparr> st_warehouse_id = w, st_item_id = i, st_qty = 0 \<rparr>;
              s1 = s \<lparr> working := (working s) \<lparr> stocks := stocks (working s) @ [st] \<rparr> \<rparr>
          in (st, commit s1))"

text \<open>Writing a column of the one object that a query returned: the first row that
  satisfies the query's condition.\<close>

fun update_first :: "('a \<Rightarrow> bool) \<Rightarrow> ('a \<Rightarrow> 'a) \<Rightarrow> 'a list \<Rightarrow> 'a list" where
  "update_first P f [] = []"
| "update_first P f (x # xs) = (if P x then f x # xs else x # update_first P f xs)"

definition set_qty :: "int \<Rightarrow> int \<Rightarrow> int \<Rightarrow> stock list \<Rightarrow> stock list" where
  "set_qty w i q sts = update_first (stock_of w i) (\<lambda>st. st \<lparr> st_qty := q \<rparr>) sts"

definition write_qty :: "session \<Rightarrow> int \<Rightarrow> int \<Rightarrow> int \<Rightarrow> session" where
  "write_qty s w i q =
     s \<lparr> working := (working s) \<lparr> stocks := set_qty w i q (stocks (working s)) \<rparr> \<rparr>"

text \<open>The stored quantity of a pair as a reader sees it: 0 when there is no row.\<close>

definition stock_qty :: "db \<Rightarrow> int \<Rightarrow> int \<Rightarrow> int" where
  "stock_qty d w i = (case find (stock_of w i) (stocks d) of Some st \<Rightarrow> st_qty st | None \<Rightarrow> 0)"

definition apply_party_price :: "fpu \<Rightarrow> db \<Rightarrow> int \<Rightarrow> item \<Rightarrow> rat \<times> rat" where
  "apply_party_price fp d party_id it =
     (case find (\<lambda>pp. pp_party_id pp = party_id \<and> pp_item_id pp = it_id it) (party_prices d) of
        None \<Rightarrow> (it_sale_price it, 0)
      | Some pp \<Rightarrow>
          let disc = py_max 0 (py_min 100 (pp_discount_percent pp));
              rate = f_round2 fp (f_mul fp (it_sale_price it) (f_sub fp 1 (f_div fp disc 100)))
          in (rate, disc))"

record totals =
  t_subtotal :: rat
  t_gst :: rat
  t_total :: rat
  t_paid :: rat
  t_balance :: rat

text \<open>The loop of \<^verbatim>\<open>invoice_totals\<close> over the invoice's lines, on the two accumulators
  \<open>(subtotal, gst)\<close>.\<close>

fun totals_loop :: "fpu \<Rightarrow> invoice_line list \<Rightarrow> rat \<times> rat \<Rightarrow> rat \<times> rat" where
  "totals_loop fp [] (subtotal, gst) = (subtotal, gst)"
| "totals_loop fp (l # ls) (subtotal, gst) =
     (let amt = f_mul fp (f_of_int fp (il_qty l)) (il_rate l);
          disc_amt = f_mul fp amt (f_div fp (il_discount_percent l) 100);
          taxable = f_sub fp amt disc_amt
      in totals_loop fp ls
           (f_add fp subtotal taxable,
            f_add fp gst (f_mul fp taxable (f_div fp (il_gst_percent l) 100))))"

definition invoice_totals :: "fpu \<Rightarrow> db \<Rightarrow> int \<Rightarrow> totals" where
  "invoice_totals fp d invoice_id =
     (let lines = filter (\<lambda>l. il_invoice_id l = invoice_id) (invoice_lines d);
          res = totals_loop fp lines (0, 0);
          subtotal = fst res;
          gst = snd res;
          total = f_add fp subtotal gst;
          pays = filter (\<lambda>p. pay_invoice_id p = Some invoice_id) (payments d);
          paid = f_sum fp (map pay_amount pays);
          balance = f_sub fp total paid
      in \<lparr> t_subtotal = f_round2 fp subtotal, t_gst = f_round2 fp gst,
           t_total = f_round2 fp total, t_paid = f_round2 fp paid,
           t_balance = f_round2 fp balance \<rparr>)"

subsection \<open>\<^verbatim>\<open>main.py\<close>: numbering and party summary\<close>

definition existing_numbers :: "string \<Rightarrow> db \<Rightarrow> string list" where
  "existing_numbers prefix d =
     (if prefix = ''SO'' then map so_no (sales_orders d)
      else if prefix = ''DC'' then map dc_no (challans d)
      else if prefix = ''RN'' then map rn_no (return_notes d)
      else map inv_invoice_no (invoices d))"

fun collect_nums :: "string \<Rightarrow> string list \<Rightarrow> int list \<Rightarrow> int list" where
  "collect_nums p [] nums = nums"
| "collect_nums p (x # xs) nums =
     (if x \<noteq> [] \<and> startswith x p
      then (case py_int (py_replace x p []) of
              Some n \<Rightarrow> collect_nums p xs (nums @ [n])
            | None \<Rightarrow> collect_nums p xs nums)
      else collect_nums p xs nums)"

text \<open>\<open>period\<close> is \<^verbatim>\<open>datetime.now().strftime('%Y%m')\<close>. The \<^verbatim>\<open>ValueError\<close> of
  \<^verbatim>\<open>int\<close> is caught in the loop, that of \<^verbatim>\<open>str\<close> is not.\<close>

definition next_no :: "string \<Rightarrow> string \<Rightarrow> db \<Rightarrow> error + string" where
  "next_no prefix period d =
     (let p = prefix @ ''-'' @ period @ ''-'';
          nums = collect_nums p (existing_numbers prefix d) [];
          n = (if nums \<noteq> [] then py_max_list nums + 1 else 1)
      in case py_str n of
           None \<Rightarrow> Inl ValueError
         | Some t \<Rightarrow> Inr (p @ zfill 4 t))"

record summary =
  s_outstanding :: rat
  s_overdue :: rat

text \<open>\<open>today\<close> is \<^verbatim>\<open>date.today().toordinal()\<close>.\<close>

fun summary_loop ::
  "fpu \<Rightarrow> db \<Rightarrow> party \<Rightarrow> int \<Rightarrow> invoice list \<Rightarrow> rat \<times> rat \<Rightarrow> rat \<times> rat" where
  "summary_loop fp d pa today [] (total_out, overdue) = (total_out, overdue)"
| "summary_loop fp d pa today (iv # ivs) (total_out, overdue) =
     (let bal = t_balance (invoice_totals fp d (inv_id iv))
      in if bal \<le> 0 then summary_loop fp d pa today ivs (total_out, overdue)
         else
           let terms = p_payment_terms_days pa
           in summary_loop fp d pa today ivs
                (f_add fp total_out bal,
                 if 0 < terms \<and> inv_invoice_date iv + terms < today
                 then f_add fp overdue bal else overdue))"

definition calc_party_summary :: "fpu \<Rightarrow> db \<Rightarrow> party \<Rightarrow> int \<Rightarrow> summary" where
  "calc_party_summary fp d pa today =
     (let invs = filter (\<lambda>iv. inv_party_id iv = p_id pa) (invoices d);
          res = summary_loop fp d pa today invs (0, 0);
          total_out = fst res;
          overdue = snd res
      in \<lparr> s_outstanding = f_round2 fp total_out, s_overdue = f_round2 fp overdue \<rparr>)"

subsection \<open>\<^verbatim>\<open>main.py\<close>: the handlers\<close>

definition stock_adjust :: "int \<Rightarrow> int \<Rightarrow> int \<Rightarrow> db \<Rightarrow> (error + unit) \<times> db" where
  "stock_adjust warehouse_id item_id delta d =
     (let (st, s) = get_stock (open_session d) warehouse_id item_id;
          q = st_qty st + delta;
          s1 = write_qty s warehouse_id item_id q
      in if q < 0 then (Inl Stock_cannot_go_negative, committed s1)
         else if \<not> fits_integer q then (Inl OverflowError, committed s1)
         else (Inr (), committed (commit s1)))"

definition so_approve :: "int \<Rightarrow> db \<Rightarrow> (error + unit) \<times> db" where
  "so_approve so d =
     (case find (\<lambda>ord. so_id ord = so) (sales_orders d) of
        None \<Rightarrow> (Inl SO_not_found, d)
      | Some ord \<Rightarrow>
          (Inr (),
           d \<lparr> sales_orders :=
                 update_first (\<lambda>x. so_id x = so) (\<lambda>x. x \<lparr> so_status := ''APPROVED'' \<rparr>)
                   (sales_orders d) \<rparr>))"

text \<open>The loop of \<^verbatim>\<open>challan_create\<close> over the order's lines. It stops at the first
  line with too little stock and gives back the session as the raise leaves it. A new
  quantity that the database cannot hold is refused at the next flush, which is the
  query of the next \<^verbatim>\<open>get_stock\<close> or the handler's commit; nothing is committed between
  the assignment and that flush, so the model raises where the quantity is assigned.\<close>

fun dispatch_lines ::
  "int \<Rightarrow> int \<Rightarrow> sales_order_line list \<Rightarrow> session \<Rightarrow> error option \<times> session" where
  "dispatch_lines wh dc [] s = (None, s)"
| "dispatch_lines wh dc (l # ls) s =
     (let (st, s1) = get_stock s wh (sol_item_id l)
      in if st_qty st < sol_qty l
         then (Some (Insufficient_stock (sol_item_id l) (st_qty st)), s1)
         else
           let s2 = write_qty s1 wh (sol_item_id l) (st_qty st - sol_qty l);
               row = \<lparr> dcl_dc_id = dc, dcl_item_id = sol_item_id l, dcl_qty = sol_qty l \<rparr>;
               s3 = s2 \<lparr> working :=
                          (working s2) \<lparr> challan_lines := challan_lines (working s2) @ [row] \<rparr> \<rparr>
           in if \<not> fits_integer (st_qty st - sol_qty l) then (Some OverflowError, s3)
              else dispatch_lines wh dc ls s3)"

definition challan_create :: "string \<Rightarrow> int \<Rightarrow> db \<Rightarrow> (error + unit) \<times> db" where
  "challan_create period so d =
     (case find (\<lambda>ord. so_id ord = so) (sales_orders d) of
        None \<Rightarrow> (Inl SO_not_approved, d)
      | Some ord \<Rightarrow>
          if so_status ord \<noteq> ''APPROVED'' then (Inl SO_not_approved, d)
          else
            (case next_no ''DC'' period d of
               Inl e \<Rightarrow> (Inl e, d)
             | Inr no \<Rightarrow>
                 let dc = \<lparr> dc_id = next_id (map dc_id (challans d)),
                            dc_no = no, dc_so_id = so, dc_status = ''OPEN'' \<rparr>;
                     s1 = commit ((open_session d)
                            \<lparr> working := d \<lparr> challans := challans d @ [dc] \<rparr> \<rparr>);
                     so_lines = filter (\<lambda>l. sol_so_id l = so) (sales_order_lines (working s1))
                 in (case dispatch_lines (so_warehouse_id ord) (dc_id dc) so_lines s1 of
                       (Some e, s2) \<Rightarrow> (Inl e, committed s2)
                     | (None, s2) \<Rightarrow>
                         (let s3 = s2 \<lparr> working :=
                                    (working s2) \<lparr> sales_orders :=
                                      update_first (\<lambda>x. so_id x = so)
                                        (\<lambda>x. x \<lparr> so_status := ''DISPATCHED'' \<rparr>)
                                        (sales_orders (working s2)) \<rparr> \<rparr>
                          in (Inr (), committed (commit s3))))))"

text \<open>The two loops of \<^verbatim>\<open>invoice_create\<close> over the challan's lines: the projection
  for the credit check, and the copy into invoice lines.\<close>

fun projection_loop ::
  "fpu \<Rightarrow> db \<Rightarrow> int \<Rightarrow> challan_line list \<Rightarrow> rat \<times> rat \<Rightarrow> rat \<times> rat" where
  "projection_loop fp d pid [] (projected_sub, projected_gst) = (projected_sub, projected_gst)"
| "projection_loop fp d pid (dl # dls) (projected_sub, projected_gst) =
     (case find (\<lambda>it. it_id it = dcl_item_id dl) (items d) of
        None \<Rightarrow> projection_loop fp d pid dls (projected_sub, projected_gst)
      | Some it \<Rightarrow>
          let rd = apply_party_price fp d pid it;
              rate = fst rd;
              disc = snd rd;
              amt = f_mul fp (f_of_int fp (dcl_qty dl)) rate;
              disc_amt = f_mul fp amt (f_div fp disc 100);
              taxable = f_sub fp amt disc_amt
          in projection_loop fp d pid dls
               (f_add fp projected_sub taxable,
                f_add fp projected_gst (f_mul fp taxable (f_div fp (it_gst_percent it) 100))))"

definition projected_total :: "fpu \<Rightarrow> db \<Rightarrow> int \<Rightarrow> challan_line list \<Rightarrow> rat" where
  "projected_total fp d pid dc_lines =
     (let res = projection_loop fp d pid dc_lines (0, 0);
          projected_sub = fst res;
          projected_gst = snd res
      in f_add fp projected_sub projected_gst)"

fun copy_lines :: "fpu \<Rightarrow> int \<Rightarrow> int \<Rightarrow> challan_line list \<Rightarrow> session \<Rightarrow> session" where
  "copy_lines fp nv pid [] s = s"
| "copy_lines fp nv pid (dl # dls) s =
     (case find (\<lambda>it. it_id it = dcl_item_id dl) (items (working s)) of
        None \<Rightarrow> copy_lines fp nv pid dls s
      | Some it \<Rightarrow>
          let rd = apply_party_price fp (working s) pid it;
              rate = fst rd;
              disc = snd rd;
              row = \<lparr> il_invoice_id = nv, il_item_id = it_id it, il_qty = dcl_qty dl,
                      il_rate = rate, il_gst_percent = it_gst_percent it,
                      il_discount_percent = disc \<rparr>
          in copy_lines fp nv pid dls
               (s \<lparr> working :=
                      (working s) \<lparr> invoice_lines := invoice_lines (working s) @ [row] \<rparr> \<rparr>))"

text \<open>The block of \<^verbatim>\<open>invoice_create\<close> headed \<^verbatim>\<open>CREDIT LIMIT + OVERDUE BLOCK\<close>: the
  first check that fails raises, \<open>None\<close> lets the handler go on.\<close>

definition credit_control :: "fpu \<Rightarrow> int \<Rightarrow> db \<Rightarrow> int \<Rightarrow> party \<Rightarrow> error option" where
  "credit_control fp today d dc pa =
     (let sm = calc_party_summary fp d pa today
      in if p_is_blocked pa then Some Party_is_BLOCKED
         else if 0 < s_overdue sm then Some (Overdue_pending (s_overdue sm))
         else
           let dc_lines = filter (\<lambda>l. dcl_dc_id l = dc) (challan_lines d);
               projected = projected_total fp d (p_id pa) dc_lines
           in if p_credit_limit pa \<noteq> 0
                 \<and> p_credit_limit pa < f_add fp (s_outstanding sm) projected
              then Some (Credit_limit_exceeded (p_credit_limit pa) (s_outstanding sm)
                           (f_round2 fp projected))
              else None)"

text \<open>The rest of \<^verbatim>\<open>invoice_create\<close>, from \<^verbatim>\<open>s.add(inv)\<close> on: the invoice header
  (\<open>no\<close> is its number) is added and committed, the challan's lines (\<open>dc_lines\<close>, as read
  for the projection) are copied, the challan is marked and the session committed.

  The handler then leaves the \<^verbatim>\<open>with\<close> block, which closes the session, and builds its
  answer from \<^verbatim>\<open>inv.id\<close>. The second commit has expired \<^verbatim>\<open>inv\<close> (the session expires its
  objects on every commit, and \<^verbatim>\<open>s.refresh(inv)\<close> came before that commit), so the
  column has to be loaded again, which an object without a session cannot do: the read
  raises \<^verbatim>\<open>DetachedInstanceError\<close>. By then everything is committed.\<close>

definition issue_invoice ::
  "fpu \<Rightarrow> string \<Rightarrow> int \<Rightarrow> sales_order \<Rightarrow> party \<Rightarrow> int \<Rightarrow> db \<Rightarrow> (error + int) \<times> db" where
  "issue_invoice fp no dc so pa idate d =
     (let dc_lines = filter (\<lambda>l. dcl_dc_id l = dc) (challan_lines d);
          nv = \<lparr> inv_id = next_id (map inv_id (invoices d)),
                 inv_invoice_no = no,
                 inv_dc_id = dc, inv_party_id = p_id pa,
                 inv_warehouse_id = so_warehouse_id so,
                 inv_invoice_date = idate,
                 inv_place_of_supply_state = p_state pa,
                 inv_status = ''OPEN'' \<rparr>;
          s1 = commit ((open_session d) \<lparr> working := d \<lparr> invoices := invoices d @ [nv] \<rparr> \<rparr>);
          s2 = copy_lines fp (inv_id nv) (p_id pa) dc_lines s1;
          s3 = s2 \<lparr> working :=
                 (working s2) \<lparr> challans :=
                   update_first (\<lambda>x. dc_id x = dc) (\<lambda>x. x \<lparr> dc_status := ''INVOICED'' \<rparr>)
                     (challans (working s2)) \<rparr> \<rparr>
      in (Inl DetachedInstanceError, committed (commit s3)))"

text \<open>\<open>invoice_date\<close> is the form's date string as \<^verbatim>\<open>date.fromisoformat\<close> reads it:
  \<open>None\<close> when it raises \<^verbatim>\<open>ValueError\<close>. The header's arguments are evaluated in the
  order they are written, the number before the date. The handler's answer would be the
  redirection to the new invoice, which the model gives as the invoice's id.\<close>

definition invoice_create ::
  "fpu \<Rightarrow> int \<Rightarrow> string \<Rightarrow> int \<Rightarrow> int option \<Rightarrow> db \<Rightarrow> (error + int) \<times> db" where
  "invoice_create fp today period dc invoice_date d =
     (case find (\<lambda>c. dc_id c = dc) (challans d) of
        None \<Rightarrow> (Inl Challan_not_available, d)
      | Some c \<Rightarrow>
          if dc_status c \<noteq> ''OPEN'' then (Inl Challan_not_available, d)
          else
            (case find (\<lambda>ord. so_id ord = dc_so_id c) (sales_orders d) of
               None \<Rightarrow> (Inl SO_not_found_for_challan, d)
             | Some so \<Rightarrow>
                 (case find (\<lambda>p. p_id p = so_party_id so) (parties d) of
                    None \<Rightarrow> (Inl Party_not_found, d)
                  | Some pa \<Rightarrow>
                      (case credit_control fp today d dc pa of
                         Some e \<Rightarrow> (Inl e, d)
                       | None \<Rightarrow>
                           (case next_no ''INV'' period d of
                              Inl e \<Rightarrow> (Inl e, d)
                            | Inr no \<Rightarrow>
                                (case invoice_date of
                                   None \<Rightarrow> (Inl ValueError, d)
                                 | Some idate \<Rightarrow> issue_invoice fp no dc so pa idate d))))))"

definition add_payment :: "int \<Rightarrow> rat \<Rightarrow> db \<Rightarrow> (error + unit) \<times> db" where
  "add_payment nv amount d =
     (case find (\<lambda>iv. inv_id iv = nv) (invoices d) of
        None \<Rightarrow> (Inl Invoice_not_found, d)
      | Some iv \<Rightarrow>
          (Inr (),
           d \<lparr> payments := payments d @
                 [\<lparr> pay_party_id = inv_party_id iv, pay_invoice_id = Some nv,
                    pay_amount = amount \<rparr>] \<rparr>))"

text \<open>The loop of \<^verbatim>\<open>returns_post\<close> over the note's lines.\<close>

fun post_lines :: "int \<Rightarrow> return_line list \<Rightarrow> session \<Rightarrow> error option \<times> session" where
  "post_lines wh [] s = (None, s)"
| "post_lines wh (l # ls) s =
     (let (st, s1) = get_stock s wh (rl_item_id l);
          s2 = write_qty s1 wh (rl_item_id l) (st_qty st + rl_qty l)
      in if \<not> fits_integer (st_qty st + rl_qty l) then (Some OverflowError, s2)
         else post_lines wh ls s2)"

definition returns_post :: "int \<Rightarrow> db \<Rightarrow> (error + unit) \<times> db" where
  "returns_post rn d =
     (case find (\<lambda>r. rn_id r = rn) (return_notes d) of
        None \<Rightarrow> (Inl Return_note_not_open, d)
      | Some r \<Rightarrow>
          if rn_status r \<noteq> ''OPEN'' then (Inl Return_note_not_open, d)
          else
            let rlines = filter (\<lambda>l. rl_return_id l = rn) (return_lines d)
            in (case post_lines (rn_warehouse_id r) rlines (open_session d) of
                  (Some e, s1) \<Rightarrow> (Inl e, committed s1)
                | (None, s1) \<Rightarrow>
                    (let s2 = s1 \<lparr> working :=
                               (working s1) \<lparr> return_notes :=
                                 update_first (\<lambda>x. rn_id x = rn)
                                   (\<lambda>x. x \<lparr> rn_status := ''POSTED'' \<rparr>)
                                   (return_notes (working s1)) \<rparr> \<rparr>
                     in (Inr (), committed (commit s2)))))"

subsection \<open>\<^verbatim>\<open>app.py\<close>: the older direct invoice flow\<close>

text \<open>The older application keeps its own tables; its invoice lines carry no discount.
  Only what the status derivation reads is modelled.\<close>

record v1_invoice =
  v1_inv_id :: int
  v1_inv_party_id :: int
  v1_inv_warehouse_id :: int
  v1_inv_status :: string

record v1_invoice_line =
  v1_il_invoice_id :: int
  v1_il_item_id :: int
  v1_il_qty :: int
  v1_il_rate :: rat
  v1_il_gst_percent :: rat

record v1_db =
  v1_invoices :: "v1_invoice list"
  v1_invoice_lines :: "v1_invoice_line list"
  v1_payments :: "payment list"

fun v1_totals_loop :: "fpu \<Rightarrow> v1_invoice_line list \<Rightarrow> rat \<times> rat \<Rightarrow> rat \<times> rat" where
  "v1_totals_loop fp [] (subtotal, gst) = (subtotal, gst)"
| "v1_totals_loop fp (l # ls) (subtotal, gst) =
     (let line_amount = f_mul fp (f_of_int fp (v1_il_qty l)) (v1_il_rate l)
      in v1_totals_loop fp ls
           (f_add fp subtotal line_amount,
            f_add fp gst (f_mul fp line_amount (f_div fp (v1_il_gst_percent l) 100))))"

definition v1_invoice_totals :: "fpu \<Rightarrow> v1_db \<Rightarrow> int \<Rightarrow> totals" where
  "v1_invoice_totals fp d invoice_id =
     (let lines = filter (\<lambda>l. v1_il_invoice_id l = invoice_id) (v1_invoice_lines d);
          res = v1_totals_loop fp lines (0, 0);
          subtotal = fst res;
          gst = snd res;
          total = f_add fp subtotal gst;
          paid = filter (\<lambda>p. pay_invoice_id p = Some invoice_id) (v1_payments d);
          paid_amt = f_sum fp (map pay_amount paid);
          balance = f_sub fp total paid_amt
      in \<lparr> t_subtotal = f_round2 fp subtotal, t_gst = f_round2 fp gst,
           t_total = f_round2 fp total, t_paid = f_round2 fp paid_amt,
           t_balance = f_round2 fp balance \<rparr>)"

text \<open>The literal \<^verbatim>\<open>0.001\<close> is the double nearest to one thousandth.\<close>

definition lit_0_001 :: rat where
  "lit_0_001 = fl (1 / 1000)"

definition update_invoice_status :: "fpu \<Rightarrow> v1_db \<Rightarrow> int \<Rightarrow> v1_db" where
  "update_invoice_status fp d invoice_id =
     (case find (\<lambda>iv. v1_inv_id iv = invoice_id) (v1_invoices d) of
        None \<Rightarrow> d
      | Some iv \<Rightarrow>
          let t = v1_invoice_totals fp d invoice_id;
              st = (if t_total t \<le> 0 then ''OPEN''
                    else if t_balance t \<le> lit_0_001 then ''PAID''
                    else if 0 < t_paid t then ''PARTIAL''
                    else ''OPEN'')
          in d \<lparr> v1_invoices :=
                  update_first (\<lambda>x. v1_inv_id x = invoice_id) (\<lambda>x. x \<lparr> v1_inv_status := st \<rparr>)
                    (v1_invoices d) \<rparr>)"

text \<open>\<open>pay_date\<close> is the form's date string as \<^verbatim>\<open>date.fromisoformat\<close> reads it.\<close>

definition payments_create ::
  "fpu \<Rightarrow> int \<Rightarrow> int \<Rightarrow> int option \<Rightarrow> rat \<Rightarrow> v1_db \<Rightarrow> (error + unit) \<times> v1_db" where
  "payments_create fp party_id invoice_id pay_date amount d =
     (case pay_date of
        None \<Rightarrow> (Inl ValueError, d)
      | Some pd \<Rightarrow>
          let d1 = d \<lparr> v1_payments := v1_payments d @
                     [\<lparr> pay_party_id = party_id, pay_invoice_id = Some invoice_id,
                        pay_amount = amount \<rparr>] \<rparr>
          in (Inr (), update_invoice_status fp d1 invoice_id))"

subsection \<open>The specification's formulas\<close>

text \<open>The definitions of this subsection follow the words of the specification, for
  comparison with the code above.\<close>

text \<open>Financial aggregator: the taxable value and the tax of one line, and a sum that
  accumulates from zero.\<close>

definition line_taxable :: "fpu \<Rightarrow> invoice_line \<Rightarrow> rat" where
  "line_taxable fp l =
     f_sub fp (f_mul fp (f_of_int fp (il_qty l)) (il_rate l))
       (f_mul fp (f_mul fp (f_of_int fp (il_qty l)) (il_rate l))
          (f_div fp (il_discount_percent l) 100))"

definition line_gst :: "fpu \<Rightarrow> invoice_line \<Rightarrow> rat" where
  "line_gst fp l = f_mul fp (line_taxable fp l) (f_div fp (il_gst_percent l) 100)"

definition acc_sum :: "fpu \<Rightarrow> rat list \<Rightarrow> rat" where
  "acc_sum fp xs = foldl (f_add fp) 0 xs"

definition spec_invoice_totals :: "fpu \<Rightarrow> db \<Rightarrow> int \<Rightarrow> totals" where
  "spec_invoice_totals fp d invoice_id =
     (let lines = filter (\<lambda>l. il_invoice_id l = invoice_id) (invoice_lines d);
          subtotal = acc_sum fp (map (line_taxable fp) lines);
          gst = acc_sum fp (map (line_gst fp) lines);
          total = f_add fp subtotal gst;
          paid = f_sum fp (map pay_amount
                   (filter (\<lambda>p. pay_invoice_id p = Some invoice_id) (payments d)));
          balance = f_sub fp total paid
      in \<lparr> t_subtotal = f_round2 fp subtotal, t_gst = f_round2 fp gst,
           t_total = f_round2 fp total, t_paid = f_round2 fp paid,
           t_balance = f_round2 fp balance \<rparr>)"

text \<open>Invoice status derivation.\<close>

definition status_rule :: "totals \<Rightarrow> string" where
  "status_rule t =
     (if t_total t \<le> 0 then ''OPEN''
      else if t_balance t \<le> lit_0_001 then ''PAID''
      else if 0 < t_paid t \<and> lit_0_001 < t_balance t then ''PARTIAL''
      else ''OPEN'')"

text \<open>Pricing resolver: the clamp of a discount to the range from 0 to 100.\<close>

definition spec_clamp :: "rat \<Rightarrow> rat" where
  "spec_clamp x = (if x < 0 then 0 else if 100 < x then 100 else x)"

definition price_row :: "db \<Rightarrow> int \<Rightarrow> item \<Rightarrow> party_price option" where
  "price_row d party_id it =
     find (\<lambda>pp. pp_party_id pp = party_id \<and> pp_item_id pp = it_id it) (party_prices d)"

text \<open>Invoice creation: the invoice line that a challan line becomes, when its item
  resolves.\<close>

definition invoice_line_of ::
  "fpu \<Rightarrow> db \<Rightarrow> int \<Rightarrow> int \<Rightarrow> challan_line \<Rightarrow> invoice_line option" where
  "invoice_line_of fp d pid nv dl =
     map_option
       (\<lambda>it. \<lparr> il_invoice_id = nv, il_item_id = it_id it, il_qty = dcl_qty dl,
               il_rate = fst (apply_party_price fp d pid it),
               il_gst_percent = it_gst_percent it,
               il_discount_percent = snd (apply_party_price fp d pid it) \<rparr>)
       (find (\<lambda>it. it_id it = dcl_item_id dl) (items d))"

definition resolves :: "db \<Rightarrow> challan_line \<Rightarrow> bool" where
  "resolves d dl = (find (\<lambda>it. it_id it = dcl_item_id dl) (items d) \<noteq> None)"

text \<open>Numbering service. \<open>spec_next_no\<close> parses the trailing suffix of a number, as the
  specification says; \<open>kept_numbers\<close> parses what is left of a number when every
  occurrence of the period prefix is deleted, as \<^verbatim>\<open>x.replace(p, "")\<close> does.\<close>

definition period_prefix :: "string \<Rightarrow> string \<Rightarrow> string" where
  "period_prefix prefix period = prefix @ ''-'' @ period @ ''-''"


definition kept_numbers :: "string \<Rightarrow> string list \<Rightarrow> int list" where
  "kept_numbers p existing =
     List.map_filter (\<lambda>x. if startswith x p then py_int (py_replace x p []) else None) existing"

definition serial :: "int list \<Rightarrow> int" where
  "serial nums = (if nums = [] then 1 else Max (set nums) + 1)"



text \<open>A number holds the period prefix only at its head.\<close>

definition head_only :: "string \<Rightarrow> string \<Rightarrow> bool" where
  "head_only p x = (py_replace (drop (length p) x) p [] = drop (length p) x)"

text \<open>The numbers that the handlers write are those that \<^verbatim>\<open>next_no\<close> has returned: the
  prefix, a period of digits and a serial number of digits, joined by hyphens.\<close>

definition issued :: "string \<Rightarrow> string \<Rightarrow> bool" where
  "issued prefix x =
     (\<exists>per ds. x = prefix @ ''-'' @ per @ ''-'' @ ds
        \<and> list_all is_digit per \<and> list_all is_digit ds \<and> ds \<noteq> [])"


text \<open>Stock ledger: no stock row holds a quantity below 0.\<close>

definition stocks_nonneg :: "db \<Rightarrow> bool" where
  "stocks_nonneg d = list_all (\<lambda>st. 0 \<le> st_qty st) (stocks d)"

subsection \<open>Example databases\<close>

definition empty_db :: db where
  "empty_db =
     \<lparr> items = [], parties = [], party_prices = [], stocks = [], sales_orders = [],
       sales_order_lines = [], challans = [], challan_lines = [], invoices = [],
       invoice_lines = [], payments = [], return_notes = [], return_lines = [] \<rparr>"

text \<open>Five pieces of item 1 in warehouse 1, and an open return note for that warehouse
  whose one line has the quantity -6.\<close>

definition returns_db :: db where
  "returns_db =
     empty_db
     \<lparr> stocks := [\<lparr> st_warehouse_id = 1, st_item_id = 1, st_qty = 5 \<rparr>],
       return_notes :=
         [\<lparr> rn_id = 1, rn_no = ''RN-202501-0001'', rn_party_id = 1, rn_warehouse_id = 1,
            rn_status = ''OPEN'' \<rparr>],
       return_lines := [\<lparr> rl_return_id = 1, rl_item_id = 1, rl_qty = - 6 \<rparr>] \<rparr>"

text \<open>An approved order of two pieces of item 1 and one piece of item 2 from warehouse 1,
  which holds five pieces of item 1 and has no stock row for item 2.\<close>

definition dispatch_db :: db where
  "dispatch_db =
     empty_db
     \<lparr> stocks := [\<lparr> st_warehouse_id = 1, st_item_id = 1, st_qty = 5 \<rparr>],
       sales_orders :=
         [\<lparr> so_id = 1, so_no = ''SO-202501-0001'', so_party_id = 1, so_warehouse_id = 1,
            so_status = ''APPROVED'' \<rparr>],
       sales_order_lines :=
         [\<lparr> sol_so_id = 1, sol_item_id = 1, sol_qty = 2, sol_rate = 100,
            sol_gst_percent = 0, sol_discount_percent = 0 \<rparr>,
          \<lparr> sol_so_id = 1, sol_item_id = 2, sol_qty = 1, sol_rate = 100,
            sol_gst_percent = 0, sol_discount_percent = 0 \<rparr>] \<rparr>"

text \<open>An order that has been dispatched: its challan took two of the five pieces.\<close>

definition dispatched_db :: db where
  "dispatched_db =
     empty_db
     \<lparr> stocks := [\<lparr> st_warehouse_id = 1, st_item_id = 1, st_qty = 3 \<rparr>],
       sales_orders :=
         [\<lparr> so_id = 1, so_no = ''SO-202501-0001'', so_party_id = 1, so_warehouse_id = 1,
            so_status = ''DISPATCHED'' \<rparr>],
       sales_order_lines :=
         [\<lparr> sol_so_id = 1, sol_item_id = 1, sol_qty = 2, sol_rate = 100,
            sol_gst_percent = 0, sol_discount_percent = 0 \<rparr>],
       challans :=
         [\<lparr> dc_id = 1, dc_no = ''DC-202501-0001'', dc_so_id = 1, dc_status = ''OPEN'' \<rparr>],
       challan_lines := [\<lparr> dcl_dc_id = 1, dcl_item_id = 1, dcl_qty = 2 \<rparr>] \<rparr>"

text \<open>The specification's invoice of two lines: two pieces at 100 with 12 percent tax and
  10 percent discount, one piece at 50 without tax or discount.\<close>

definition two_line_db :: db where
  "two_line_db =
     empty_db
     \<lparr> invoices :=
         [\<lparr> inv_id = 1, inv_invoice_no = ''INV-202501-0001'', inv_dc_id = 1, inv_party_id = 1,
            inv_warehouse_id = 1, inv_invoice_date = 739000,
            inv_place_of_supply_state = None, inv_status = ''OPEN'' \<rparr>],
       invoice_lines :=
         [\<lparr> il_invoice_id = 1, il_item_id = 1, il_qty = 2, il_rate = 100,
            il_gst_percent = 12, il_discount_percent = 10 \<rparr>,
          \<lparr> il_invoice_id = 1, il_item_id = 2, il_qty = 1, il_rate = 50,
            il_gst_percent = 0, il_discount_percent = 0 \<rparr>] \<rparr>"

text \<open>An invoice of 500 without payments.\<close>

definition unpaid_db :: db where
  "unpaid_db =
     empty_db
     \<lparr> invoices :=
         [\<lparr> inv_id = 1, inv_invoice_no = ''INV-202501-0001'', inv_dc_id = 1, inv_party_id = 1,
            inv_warehouse_id = 1, inv_invoice_date = 739000,
            inv_place_of_supply_state = None, inv_status = ''OPEN'' \<rparr>],
       invoice_lines :=
         [\<lparr> il_invoice_id = 1, il_item_id = 1, il_qty = 1, il_rate = 500,
            il_gst_percent = 0, il_discount_percent = 0 \<rparr>] \<rparr>"

text \<open>The same invoice in the tables of the older application.\<close>

definition v1_unpaid_db :: v1_db where
  "v1_unpaid_db =
     \<lparr> v1_invoices =
         [\<lparr> v1_inv_id = 1, v1_inv_party_id = 1, v1_inv_warehouse_id = 1,
            v1_inv_status = ''OPEN'' \<rparr>],
       v1_invoice_lines =
         [\<lparr> v1_il_invoice_id = 1, v1_il_item_id = 1, v1_il_qty = 1, v1_il_rate = 500,
            v1_il_gst_percent = 0 \<rparr>],
       v1_payments = [] \<rparr>"

text \<open>The specification's credit example: a party with the limit 1000 owes 800 on
  invoice 1, and the open challan 2 holds three pieces of item 1, priced 100.\<close>

definition credit_db :: db where
  "credit_db =
     empty_db
     \<lparr> items := [\<lparr> it_id = 1, it_gst_percent = 0, it_sale_price = 100 \<rparr>],
       parties :=
         [\<lparr> p_id = 1, p_state = Some ''Uttar Pradesh'', p_credit_limit = 1000,
            p_payment_terms_days = 0, p_is_blocked = False \<rparr>],
       sales_orders :=
         [\<lparr> so_id = 1, so_no = ''SO-202501-0001'', so_party_id = 1, so_warehouse_id = 1,
            so_status = ''DISPATCHED'' \<rparr>,
          \<lparr> so_id = 2, so_no = ''SO-202501-0002'', so_party_id = 1, so_warehouse_id = 1,
            so_status = ''DISPATCHED'' \<rparr>],
       challans :=
         [\<lparr> dc_id = 1, dc_no = ''DC-202501-0001'', dc_so_id = 1, dc_status = ''INVOICED'' \<rparr>,
          \<lparr> dc_id = 2, dc_no = ''DC-202501-0002'', dc_so_id = 2, dc_status = ''OPEN'' \<rparr>],
       challan_lines :=
         [\<lparr> dcl_dc_id = 1, dcl_item_id = 1, dcl_qty = 8 \<rparr>,
          \<lparr> dcl_dc_id = 2, dcl_item_id = 1, dcl_qty = 3 \<rparr>],
       invoices :=
         [\<lparr> inv_id = 1, inv_invoice_no = ''INV-202501-0001'', inv_dc_id = 1, inv_party_id = 1,
            inv_warehouse_id = 1, inv_invoice_date = 739000,
            inv_place_of_supply_state = Some ''Uttar Pradesh'', inv_status = ''OPEN'' \<rparr>],
       invoice_lines :=
         [\<lparr> il_invoice_id = 1, il_item_id = 1, il_qty = 8, il_rate = 100,
            il_gst_percent = 0, il_discount_percent = 0 \<rparr>] \<rparr>"

text \<open>An item with three price overrides, for the parties 1, 2 and 3.\<close>

definition price_item :: item where
  "price_item = \<lparr> it_id = 1, it_gst_percent = 12, it_sale_price = 100 \<rparr>"

definition price_db :: db where
  "price_db =
     empty_db
     \<lparr> items := [price_item],
       party_prices :=
         [\<lparr> pp_party_id = 1, pp_item_id = 1, pp_discount_percent = 150 \<rparr>,
          \<lparr> pp_party_id = 2, pp_item_id = 1, pp_discount_percent = 10 \<rparr>,
          \<lparr> pp_party_id = 3, pp_item_id = 1, pp_discount_percent = - 5 \<rparr>] \<rparr>"


text \<open>Variants of the credit example: the party blocked and past its payment terms;
  the party past its payment terms of five days; the party with the credit limit -1; and
  the item priced 50, so that the open challan projects 150.\<close>

definition credit_party :: party where
  "credit_party =
     \<lparr> p_id = 1, p_state = Some ''Uttar Pradesh'', p_credit_limit = 1000,
       p_payment_terms_days = 0, p_is_blocked = False \<rparr>"

definition blocked_db :: db where
  "blocked_db =
     credit_db \<lparr> parties := [credit_party \<lparr> p_payment_terms_days := 5, p_is_blocked := True \<rparr>] \<rparr>"

definition overdue_db :: db where
  "overdue_db = credit_db \<lparr> parties := [credit_party \<lparr> p_payment_terms_days := 5 \<rparr>] \<rparr>"

definition negative_limit_db :: db where
  "negative_limit_db = credit_db \<lparr> parties := [credit_party \<lparr> p_credit_limit := - 1 \<rparr>] \<rparr>"

definition within_limit_db :: db where
  "within_limit_db =
     credit_db \<lparr> items := [\<lparr> it_id = 1, it_gst_percent = 0, it_sale_price = 50 \<rparr>] \<rparr>"

text \<open>The credit example with the item priced 50 and taxed at 12 percent, and a price
  override of 10 percent for the party: the open challan projects 136.08.\<close>

definition discount_db :: db where
  "discount_db =
     credit_db
     \<lparr> items := [\<lparr> it_id = 1, it_gst_percent = 12, it_sale_price = 50 \<rparr>],
       party_prices := [\<lparr> pp_party_id = 1, pp_item_id = 1, pp_discount_percent = 10 \<rparr>] \<rparr>"

text \<open>An open challan of two lines whose second line names item 9, which is not in the
  item table; the party has a price override of 10 percent for item 1 and the credit
  limit 500.\<close>

definition missing_item_db :: db where
  "missing_item_db =
     empty_db
     \<lparr> items := [\<lparr> it_id = 1, it_gst_percent = 12, it_sale_price = 100 \<rparr>],
       parties :=
         [\<lparr> p_id = 1, p_state = Some ''Uttar Pradesh'', p_credit_limit = 500,
            p_payment_terms_days = 30, p_is_blocked = False \<rparr>],
       party_prices := [\<lparr> pp_party_id = 1, pp_item_id = 1, pp_discount_percent = 10 \<rparr>],
       sales_orders :=
         [\<lparr> so_id = 1, so_no = ''SO-202501-0001'', so_party_id = 1, so_warehouse_id = 1,
            so_status = ''DISPATCHED'' \<rparr>],
       challans :=
         [\<lparr> dc_id = 1, dc_no = ''DC-202501-0001'', dc_so_id = 1, dc_status = ''OPEN'' \<rparr>],
       challan_lines :=
         [\<lparr> dcl_dc_id = 1, dcl_item_id = 1, dcl_qty = 2 \<rparr>,
          \<lparr> dcl_dc_id = 1, dcl_item_id = 9, dcl_qty = 5 \<rparr>] \<rparr>"

section \<open>Properties\<close>

subsection \<open>Lists\<close>

lemma find_Some_set: "find P xs = Some x \<Longrightarrow> x \<in> set xs \<and> P x"
  by (induction xs) (auto split: if_splits)

lemma find_append:
  "find P (xs @ ys) = (case find P xs of None \<Rightarrow> find P ys | Some x \<Rightarrow> Some x)"
  by (induction xs) simp_all

lemma find_update_first:
  "find P xs = Some x \<Longrightarrow> P (f x) \<Longrightarrow> find P (update_first P f xs) = Some (f x)"
  by (induction xs) (auto split: if_splits)

lemma update_first_list_all:
  "list_all Q xs \<Longrightarrow> (\<And>x. P x \<Longrightarrow> Q x \<Longrightarrow> Q (f x)) \<Longrightarrow> list_all Q (update_first P f xs)"
  by (induction xs) auto

lemma map_filter_cong_set:
  "(\<And>x. x \<in> set xs \<Longrightarrow> f x = g x) \<Longrightarrow> List.map_filter f xs = List.map_filter g xs"
proof (induction xs)
  case Nil
  then show ?case by simp
next
  case (Cons a xs)
  then have "List.map_filter f xs = List.map_filter g xs" and "f a = g a"
    by simp_all
  then show ?case by (simp split: option.split)
qed

subsection \<open>Stock never below zero\<close>

text \<open>The specification's example of a manual adjustment: with five pieces in stock,
  an adjustment by -6 fails and the stored quantity is still 5; an adjustment by -5
  succeeds and leaves 0.\<close>

lemma stock_adjust_example:
  "stock_qty returns_db 1 1 = 5
   \<and> fst (stock_adjust 1 1 (- 6) returns_db) = Inl Stock_cannot_go_negative
   \<and> stock_qty (snd (stock_adjust 1 1 (- 6) returns_db)) 1 1 = 5
   \<and> fst (stock_adjust 1 1 (- 5) returns_db) = Inr ()
   \<and> stock_qty (snd (stock_adjust 1 1 (- 5) returns_db)) 1 1 = 0"
  by code_simp

text \<open>\<^verbatim>\<open>stock_adjust\<close> and \<^verbatim>\<open>challan_create\<close> keep every stored quantity at 0 or
  above, whether they succeed or fail; \<^verbatim>\<open>returns_post\<close> does so when no line of the
  return note has a quantity below 0. A manual adjustment that fails leaves every
  quantity as it was.\<close>

lemma write_qty_nonneg:
  assumes "stocks_nonneg (working s)" and "0 \<le> q"
  shows "stocks_nonneg (working (write_qty s w i q))"
  using assms
  by (simp add: stocks_nonneg_def write_qty_def set_qty_def update_first_list_all)

lemma write_qty_committed: "committed (write_qty s w i q) = committed s"
  by (simp add: write_qty_def)

lemma get_stock_nonneg:
  assumes "stocks_nonneg (working s)" and "stocks_nonneg (committed s)"
  shows "stocks_nonneg (working (snd (get_stock s w i)))"
    and "stocks_nonneg (committed (snd (get_stock s w i)))"
    and "0 \<le> st_qty (fst (get_stock s w i))"
  using assms
  by (auto simp: get_stock_def stocks_nonneg_def commit_def Let_def list_all_iff
      split: option.splits dest: find_Some_set)

lemma stock_adjust_keeps_nonneg:
  assumes "stocks_nonneg d"
  shows "stocks_nonneg (snd (stock_adjust w i delta d))"
proof -
  let ?g = "get_stock (open_session d) w i"
  have o: "stocks_nonneg (working (open_session d))" "stocks_nonneg (committed (open_session d))"
    using assms by (simp_all add: open_session_def)
  note g = get_stock_nonneg [OF o, of w i]
  show ?thesis
  proof (cases "st_qty (fst ?g) + delta < 0")
    case True
    then show ?thesis
      using g(2) by (simp add: stock_adjust_def Let_def case_prod_unfold write_qty_committed)
  next
    case False
    then have "stocks_nonneg (working (write_qty (snd ?g) w i (st_qty (fst ?g) + delta)))"
      using g(1) by (intro write_qty_nonneg) simp_all
    with False g(2) show ?thesis
      by (simp add: stock_adjust_def Let_def case_prod_unfold commit_def write_qty_committed)
  qed
qed

lemma dispatch_lines_keeps_nonneg:
  assumes "stocks_nonneg (working s)" and "stocks_nonneg (committed s)"
  shows "stocks_nonneg (working (snd (dispatch_lines wh dc ls s)))
     \<and> stocks_nonneg (committed (snd (dispatch_lines wh dc ls s)))"
  using assms
proof (induction ls arbitrary: s)
  case Nil
  then show ?case by simp
next
  case (Cons l ls)
  let ?g = "get_stock s wh (sol_item_id l)"
  note g = get_stock_nonneg [OF Cons.prems, of wh "sol_item_id l"]
  show ?case
  proof (cases "st_qty (fst ?g) < sol_qty l")
    case True
    then show ?thesis
      using g by (simp add: case_prod_unfold Let_def)
  next
    case False
    let ?s2 = "write_qty (snd ?g) wh (sol_item_id l) (st_qty (fst ?g) - sol_qty l)"
    let ?s3 = "?s2 \<lparr> working := (working ?s2) \<lparr> challan_lines := challan_lines (working ?s2) @
        [\<lparr> dcl_dc_id = dc, dcl_item_id = sol_item_id l, dcl_qty = sol_qty l \<rparr>] \<rparr> \<rparr>"
    have "stocks_nonneg (working ?s2)"
      using g(1) False by (intro write_qty_nonneg) simp_all
    then have w: "stocks_nonneg (working ?s3)"
      by (simp add: stocks_nonneg_def)
    have c: "stocks_nonneg (committed ?s3)"
      using g(2) by (simp add: write_qty_committed)
    show ?thesis
    proof (cases "fits_integer (st_qty (fst ?g) - sol_qty l)")
      case fits: True
      then have "dispatch_lines wh dc (l # ls) s = dispatch_lines wh dc ls ?s3"
        using False by (simp add: case_prod_unfold Let_def)
      then show ?thesis
        using Cons.IH [OF w c] by simp
    next
      case overflow: False
      then have "dispatch_lines wh dc (l # ls) s = (Some OverflowError, ?s3)"
        using False by (simp add: case_prod_unfold Let_def)
      then show ?thesis
        using w c by simp
    qed
  qed
qed

lemma challan_create_keeps_nonneg:
  assumes "stocks_nonneg d"
  shows "stocks_nonneg (snd (challan_create period so d))"
proof (cases "find (\<lambda>ord. so_id ord = so) (sales_orders d)")
  case None
  then show ?thesis
    using assms by (simp add: challan_create_def)
next
  case (Some ord)
  show ?thesis
  proof (cases "so_status ord = ''APPROVED''")
    case False
    then show ?thesis
      using assms Some by (simp add: challan_create_def)
  next
    case True
    show ?thesis
    proof (cases "next_no ''DC'' period d")
      case (Inl e)
      then show ?thesis
        using assms Some True by (simp add: challan_create_def)
    next
      case (Inr no)
      let ?dc = "\<lparr> dc_id = next_id (map dc_id (challans d)),
                   dc_no = no, dc_so_id = so, dc_status = ''OPEN'' \<rparr>"
      let ?s1 = "commit ((open_session d) \<lparr> working := d \<lparr> challans := challans d @ [?dc] \<rparr> \<rparr>)"
      let ?r = "dispatch_lines (so_warehouse_id ord) (dc_id ?dc)
          (filter (\<lambda>l. sol_so_id l = so) (sales_order_lines (working ?s1))) ?s1"
      have "stocks_nonneg (working ?s1)" "stocks_nonneg (committed ?s1)"
        using assms by (simp_all add: stocks_nonneg_def commit_def open_session_def)
      then have r: "stocks_nonneg (working (snd ?r))" "stocks_nonneg (committed (snd ?r))"
        using dispatch_lines_keeps_nonneg by blast+
      have "snd (challan_create period so d) =
          (case fst ?r of
             Some e \<Rightarrow> committed (snd ?r)
           | None \<Rightarrow> (working (snd ?r)) \<lparr> sales_orders :=
               update_first (\<lambda>x. so_id x = so) (\<lambda>x. x \<lparr> so_status := ''DISPATCHED'' \<rparr>)
                 (sales_orders (working (snd ?r))) \<rparr>)"
        using Some True Inr
        by (simp add: challan_create_def Let_def case_prod_unfold commit_def split: option.splits)
      then show ?thesis
        using r by (simp add: stocks_nonneg_def split: option.splits)
    qed
  qed
qed

lemma post_lines_keeps_nonneg:
  assumes "stocks_nonneg (working s)" and "stocks_nonneg (committed s)"
    and "list_all (\<lambda>l. 0 \<le> rl_qty l) ls"
  shows "stocks_nonneg (working (snd (post_lines wh ls s)))
     \<and> stocks_nonneg (committed (snd (post_lines wh ls s)))"
  using assms
proof (induction ls arbitrary: s)
  case Nil
  then show ?case by simp
next
  case (Cons l ls)
  let ?g = "get_stock s wh (rl_item_id l)"
  let ?s2 = "write_qty (snd ?g) wh (rl_item_id l) (st_qty (fst ?g) + rl_qty l)"
  note g = get_stock_nonneg [OF Cons.prems(1,2), of wh "rl_item_id l"]
  have "0 \<le> st_qty (fst ?g) + rl_qty l"
    using g(3) Cons.prems(3) by simp
  then have w: "stocks_nonneg (working ?s2)"
    using g(1) by (intro write_qty_nonneg)
  have c: "stocks_nonneg (committed ?s2)"
    using g(2) by (simp add: write_qty_committed)
  show ?case
  proof (cases "fits_integer (st_qty (fst ?g) + rl_qty l)")
    case True
    then have "post_lines wh (l # ls) s = post_lines wh ls ?s2"
      by (simp add: case_prod_unfold Let_def)
    then show ?thesis
      using Cons.IH [OF w c] Cons.prems(3) by simp
  next
    case False
    then have "post_lines wh (l # ls) s = (Some OverflowError, ?s2)"
      by (simp add: case_prod_unfold Let_def)
    then show ?thesis
      using w c by simp
  qed
qed

lemma returns_post_keeps_nonneg:
  assumes "stocks_nonneg d" and "list_all (\<lambda>l. 0 \<le> rl_qty l) (return_lines d)"
  shows "stocks_nonneg (snd (returns_post rn d))"
proof (cases "find (\<lambda>r. rn_id r = rn) (return_notes d)")
  case None
  then show ?thesis
    using assms by (simp add: returns_post_def)
next
  case (Some r)
  show ?thesis
  proof (cases "rn_status r = ''OPEN''")
    case False
    then show ?thesis
      using assms Some by (simp add: returns_post_def)
  next
    case True
    let ?ls = "filter (\<lambda>l. rl_return_id l = rn) (return_lines d)"
    let ?r = "post_lines (rn_warehouse_id r) ?ls (open_session d)"
    have "list_all (\<lambda>l. 0 \<le> rl_qty l) ?ls"
      using assms(2) by (simp add: list_all_iff)
    moreover have "stocks_nonneg (working (open_session d))"
      "stocks_nonneg (committed (open_session d))"
      using assms(1) by (simp_all add: open_session_def)
    ultimately have r: "stocks_nonneg (working (snd ?r))" "stocks_nonneg (committed (snd ?r))"
      using post_lines_keeps_nonneg by blast+
    have "snd (returns_post rn d) =
        (case fst ?r of
           Some e \<Rightarrow> committed (snd ?r)
         | None \<Rightarrow> (working (snd ?r)) \<lparr> return_notes :=
             update_first (\<lambda>x. rn_id x = rn) (\<lambda>x. x \<lparr> rn_status := ''POSTED'' \<rparr>)
               (return_notes (working (snd ?r))) \<rparr>)"
      using Some True
      by (simp add: returns_post_def Let_def case_prod_unfold commit_def split: option.splits)
    then show ?thesis
      using r by (simp add: stocks_nonneg_def split: option.splits)
  qed
qed

lemma stock_adjust_failure_unchanged:
  assumes "fst (stock_adjust w i delta d) = Inl e"
  shows "stock_qty (snd (stock_adjust w i delta d)) w' i' = stock_qty d w' i'"
proof (cases "find (stock_of w i) (stocks d)")
  case None
  let ?z = "\<lparr> st_warehouse_id = w, st_item_id = i, st_qty = 0 \<rparr>"
  from assms None have "snd (stock_adjust w i delta d) = d \<lparr> stocks := stocks d @ [?z] \<rparr>"
    by (auto simp: stock_adjust_def get_stock_def open_session_def commit_def write_qty_def
        Let_def split: if_splits)
  moreover have "stock_qty (d \<lparr> stocks := stocks d @ [?z] \<rparr>) w' i' = stock_qty d w' i'"
    using None by (cases "w' = w \<and> i' = i") (auto simp: stock_qty_def find_append stock_of_def split: option.splits)
  ultimately show ?thesis by simp
next
  case (Some st)
  with assms have "snd (stock_adjust w i delta d) = d"
    by (auto simp: stock_adjust_def get_stock_def open_session_def write_qty_def
        Let_def split: if_splits)
  then show ?thesis by simp
qed

text \<open>
  Claim C1: every stock mutation (manual adjustment, challan dispatch, return-note
  posting) keeps the stored quantity at 0 or above; a mutation that would take it below 0
  fails and leaves it unchanged.

  \<^verbatim>\<open>returns_post\<close> adds each return line's quantity to the stock row and never
  compares the result with 0, as \<^verbatim>\<open>stock_adjust\<close> does after the same addition. The
  form field of a return line is any integer. With five pieces in stock, posting a
  return note whose line has the quantity -6 succeeds and stores the quantity -1.
\<close>

theorem returns_post_negative_stock:
  "stock_qty returns_db 1 1 = 5
   \<and> fst (returns_post 1 returns_db) = Inr ()
   \<and> stock_qty (snd (returns_post 1 returns_db)) 1 1 = - 1"
  by code_simp

subsection \<open>Challan creation and insufficient stock\<close>

text \<open>
  Claim C2: when \<^verbatim>\<open>challan_create\<close> on an approved order finds too little stock for a
  line, nothing of the operation is kept: no stock decrement, no challan header, no
  challan line; the order stays approved.

  The handler commits the challan header before it looks at the stock, and
  \<^verbatim>\<open>get_stock\<close> commits the session when it has to create a stock row, together with
  the decrements and challan lines of the lines before. For an order of two pieces of
  item 1 (five in stock) and one piece of item 2 (no stock row), the handler fails on
  item 2 and leaves behind the challan header, the challan line of item 1 and the
  quantity 3 for item 1; the order is still approved.
\<close>

theorem challan_create_partial_writes:
  "fst (challan_create ''202501'' 1 dispatch_db) = Inl (Insufficient_stock 2 0)
   \<and> challans dispatch_db = []
   \<and> challans (snd (challan_create ''202501'' 1 dispatch_db)) =
       [\<lparr> dc_id = 1, dc_no = ''DC-202501-0001'', dc_so_id = 1, dc_status = ''OPEN'' \<rparr>]
   \<and> challan_lines (snd (challan_create ''202501'' 1 dispatch_db)) =
       [\<lparr> dcl_dc_id = 1, dcl_item_id = 1, dcl_qty = 2 \<rparr>]
   \<and> stock_qty dispatch_db 1 1 = 5
   \<and> stock_qty (snd (challan_create ''202501'' 1 dispatch_db)) 1 1 = 3
   \<and> map so_status (sales_orders (snd (challan_create ''202501'' 1 dispatch_db))) =
       [''APPROVED'']"
  by code_simp

subsection \<open>The order pipeline's states\<close>

text \<open>The transitions that hold: \<^verbatim>\<open>challan_create\<close> fails on an order that is not
  approved and leaves the database as it was; when it succeeds, the order was approved
  and is dispatched, and the new challan is open. \<^verbatim>\<open>invoice_create\<close> fails on a challan
  that is not open and leaves the database as it was. It never answers with the new
  invoice: when it has written the invoice, it raises \<^verbatim>\<open>DetachedInstanceError\<close>; the
  challan was open then and is invoiced, and a second \<^verbatim>\<open>invoice_create\<close> on the same
  challan fails.\<close>

lemma challan_create_not_approved:
  assumes "\<forall>ord. find (\<lambda>ord. so_id ord = so) (sales_orders d) = Some ord \<longrightarrow>
      so_status ord \<noteq> ''APPROVED''"
  shows "challan_create period so d = (Inl SO_not_approved, d)"
  using assms by (simp add: challan_create_def split: option.splits)

lemma get_stock_tables:
  "sales_orders (working (snd (get_stock s w i))) = sales_orders (working s)"
  "challans (working (snd (get_stock s w i))) = challans (working s)"
  by (simp_all add: get_stock_def commit_def Let_def split: option.splits)

lemma dispatch_lines_tables:
  "sales_orders (working (snd (dispatch_lines wh dc ls s))) = sales_orders (working s)
   \<and> challans (working (snd (dispatch_lines wh dc ls s))) = challans (working s)"
proof (induction ls arbitrary: s)
  case Nil
  then show ?case by simp
next
  case (Cons l ls)
  let ?g = "get_stock s wh (sol_item_id l)"
  show ?case
  proof (cases "st_qty (fst ?g) < sol_qty l")
    case True
    then show ?thesis
      by (simp add: case_prod_unfold Let_def get_stock_tables)
  next
    case False
    let ?s2 = "write_qty (snd ?g) wh (sol_item_id l) (st_qty (fst ?g) - sol_qty l)"
    let ?s3 = "?s2 \<lparr> working := (working ?s2) \<lparr> challan_lines := challan_lines (working ?s2) @
        [\<lparr> dcl_dc_id = dc, dcl_item_id = sol_item_id l, dcl_qty = sol_qty l \<rparr>] \<rparr> \<rparr>"
    have t: "sales_orders (working ?s3) = sales_orders (working s)"
      "challans (working ?s3) = challans (working s)"
      by (simp_all add: write_qty_def get_stock_tables)
    show ?thesis
    proof (cases "fits_integer (st_qty (fst ?g) - sol_qty l)")
      case fits: True
      then have "dispatch_lines wh dc (l # ls) s = dispatch_lines wh dc ls ?s3"
        using False by (simp add: case_prod_unfold Let_def)
      then show ?thesis
        using Cons.IH [of ?s3] t by simp
    next
      case overflow: False
      then have "dispatch_lines wh dc (l # ls) s = (Some OverflowError, ?s3)"
        using False by (simp add: case_prod_unfold Let_def)
      then show ?thesis
        using t by simp
    qed
  qed
qed

lemma challan_create_result:
  assumes "fst (challan_create period so d) = Inr ()"
  shows "\<exists>no. next_no ''DC'' period d = Inr no
     \<and> sales_orders (snd (challan_create period so d)) =
         update_first (\<lambda>x. so_id x = so) (\<lambda>x. x \<lparr> so_status := ''DISPATCHED'' \<rparr>) (sales_orders d)
     \<and> challans (snd (challan_create period so d)) =
         challans d @ [\<lparr> dc_id = next_id (map dc_id (challans d)),
                         dc_no = no, dc_so_id = so, dc_status = ''OPEN'' \<rparr>]"
proof -
  from assms obtain ord where
    f: "find (\<lambda>ord. so_id ord = so) (sales_orders d) = Some ord" and a: "so_status ord = ''APPROVED''"
    by (cases "find (\<lambda>ord. so_id ord = so) (sales_orders d)")
      (auto simp: challan_create_def split: if_splits)
  from assms f a obtain no where n: "next_no ''DC'' period d = Inr no"
    by (cases "next_no ''DC'' period d") (simp_all add: challan_create_def)
  let ?d1 = "d \<lparr> challans := challans d @ [\<lparr> dc_id = next_id (map dc_id (challans d)),
      dc_no = no, dc_so_id = so, dc_status = ''OPEN'' \<rparr>] \<rparr>"
  let ?s1 = "\<lparr> committed = ?d1, working = ?d1 \<rparr>"
  obtain r s' where
    r: "dispatch_lines (so_warehouse_id ord) (next_id (map dc_id (challans d)))
          (filter (\<lambda>l. sol_so_id l = so) (sales_order_lines d)) ?s1 = (r, s')"
    by (metis surj_pair)
  then have t: "sales_orders (working s') = sales_orders d"
    "challans (working s') = challans ?d1"
    using dispatch_lines_tables [of "so_warehouse_id ord" "next_id (map dc_id (challans d))"
        "filter (\<lambda>l. sol_so_id l = so) (sales_order_lines d)" ?s1]
    by simp_all
  have cc: "challan_create period so d =
      (case r of
         Some e \<Rightarrow> (Inl e, committed s')
       | None \<Rightarrow> (Inr (), (working s') \<lparr> sales_orders :=
           update_first (\<lambda>x. so_id x = so) (\<lambda>x. x \<lparr> so_status := ''DISPATCHED'' \<rparr>)
             (sales_orders (working s')) \<rparr>))"
    using f a n r
    by (simp add: challan_create_def Let_def commit_def open_session_def split: option.splits)
  with assms have "r = None"
    by (cases r) simp_all
  then show ?thesis
    by (simp add: cc t n)
qed

lemma challan_create_success:
  assumes "fst (challan_create period so d) = Inr ()"
  shows "\<exists>ord no. find (\<lambda>ord. so_id ord = so) (sales_orders d) = Some ord
     \<and> so_status ord = ''APPROVED''
     \<and> next_no ''DC'' period d = Inr no
     \<and> find (\<lambda>ord. so_id ord = so) (sales_orders (snd (challan_create period so d))) =
         Some (ord \<lparr> so_status := ''DISPATCHED'' \<rparr>)
     \<and> challans (snd (challan_create period so d)) =
         challans d @ [\<lparr> dc_id = next_id (map dc_id (challans d)),
                         dc_no = no, dc_so_id = so, dc_status = ''OPEN'' \<rparr>]"
proof -
  from assms obtain ord where
    f: "find (\<lambda>ord. so_id ord = so) (sales_orders d) = Some ord" and a: "so_status ord = ''APPROVED''"
    by (cases "find (\<lambda>ord. so_id ord = so) (sales_orders d)")
      (auto simp: challan_create_def split: if_splits)
  from f have "so_id ord = so"
    by (auto dest: find_Some_set)
  with f have "find (\<lambda>ord. so_id ord = so)
      (update_first (\<lambda>x. so_id x = so) (\<lambda>x. x \<lparr> so_status := ''DISPATCHED'' \<rparr>) (sales_orders d)) =
      Some (ord \<lparr> so_status := ''DISPATCHED'' \<rparr>)"
    by (intro find_update_first) simp_all
  with f a challan_create_result [OF assms] show ?thesis
    by auto
qed

lemma invoice_create_not_open:
  assumes "\<forall>c. find (\<lambda>c. dc_id c = dc) (challans d) = Some c \<longrightarrow> dc_status c \<noteq> ''OPEN''"
  shows "invoice_create fp today period dc invoice_date d = (Inl Challan_not_available, d)"
  using assms by (simp add: invoice_create_def split: option.splits)

lemma issue_invoice_raises:
  "fst (issue_invoice fp no dc so pa idate d) = Inl DetachedInstanceError"
  by (simp add: issue_invoice_def Let_def)

lemma invoice_create_no_answer:
  "fst (invoice_create fp today period dc invoice_date d) \<noteq> Inr n"
  by (simp add: invoice_create_def issue_invoice_raises split: option.splits sum.splits)

lemma credit_control_attached: "credit_control fp today d dc pa \<noteq> Some DetachedInstanceError"
  by (simp add: credit_control_def Let_def)

lemma next_no_attached: "next_no prefix period d \<noteq> Inl DetachedInstanceError"
  by (simp add: next_no_def Let_def split: option.splits)

lemma invoice_create_written:
  assumes "fst (invoice_create fp today period dc invoice_date d) = Inl DetachedInstanceError"
  shows "\<exists>c so pa no idate.
       find (\<lambda>c. dc_id c = dc) (challans d) = Some c \<and> dc_status c = ''OPEN''
     \<and> find (\<lambda>ord. so_id ord = dc_so_id c) (sales_orders d) = Some so
     \<and> find (\<lambda>p. p_id p = so_party_id so) (parties d) = Some pa
     \<and> credit_control fp today d dc pa = None
     \<and> next_no ''INV'' period d = Inr no
     \<and> invoice_date = Some idate
     \<and> invoice_create fp today period dc invoice_date d = issue_invoice fp no dc so pa idate d"
  using assms credit_control_attached [of fp today d dc] next_no_attached [of "''INV''" period d]
  by (auto simp: invoice_create_def split: option.splits if_splits sum.splits)

text \<open>The specification's second credit example: outstanding 800 and a projected 150
  stay within the limit 1000. The invoice 2 is written, the challan is invoiced, and the
  handler raises.\<close>

lemma invoice_create_example:
  "fst (invoice_create binary64 739010 ''202501'' 2 (Some 739010) within_limit_db) =
     Inl DetachedInstanceError
   \<and> map inv_id (invoices within_limit_db) = [1]
   \<and> map inv_id
        (invoices (snd (invoice_create binary64 739010 ''202501'' 2 (Some 739010) within_limit_db))) =
       [1, 2]
   \<and> map dc_status (challans within_limit_db) = [''INVOICED'', ''OPEN'']
   \<and> map dc_status
        (challans (snd (invoice_create binary64 739010 ''202501'' 2 (Some 739010) within_limit_db))) =
       [''INVOICED'', ''INVOICED'']"
  by code_simp

lemma copy_lines_challans: "challans (working (copy_lines fp nv pid ls s)) = challans (working s)"
proof (induction ls arbitrary: s)
  case Nil
  then show ?case by simp
next
  case (Cons dl ls)
  show ?case
    by (cases "find (\<lambda>it. it_id it = dcl_item_id dl) (items (working s))")
      (simp_all add: Cons.IH Let_def)
qed

lemma issue_invoice_challans:
  "challans (snd (issue_invoice fp no dc so pa idate d)) =
     update_first (\<lambda>x. dc_id x = dc) (\<lambda>x. x \<lparr> dc_status := ''INVOICED'' \<rparr>) (challans d)"
  by (simp add: issue_invoice_def Let_def commit_def open_session_def copy_lines_challans)

lemma invoice_create_flips:
  assumes "fst (invoice_create fp today period dc invoice_date d) = Inl DetachedInstanceError"
  shows "\<exists>c. find (\<lambda>c. dc_id c = dc) (challans d) = Some c \<and> dc_status c = ''OPEN''
     \<and> find (\<lambda>c. dc_id c = dc) (challans (snd (invoice_create fp today period dc invoice_date d))) =
         Some (c \<lparr> dc_status := ''INVOICED'' \<rparr>)"
proof -
  from invoice_create_written [OF assms] obtain c so pa no idate where
    c: "find (\<lambda>c. dc_id c = dc) (challans d) = Some c" and o: "dc_status c = ''OPEN''"
    and R: "invoice_create fp today period dc invoice_date d = issue_invoice fp no dc so pa idate d"
    by blast
  have "dc_id c = dc"
    using c by (auto dest: find_Some_set)
  then have "find (\<lambda>c. dc_id c = dc)
      (update_first (\<lambda>x. dc_id x = dc) (\<lambda>x. x \<lparr> dc_status := ''INVOICED'' \<rparr>) (challans d)) =
      Some (c \<lparr> dc_status := ''INVOICED'' \<rparr>)"
    using c by (intro find_update_first) simp_all
  then show ?thesis
    using c o by (simp add: R issue_invoice_challans)
qed

lemma invoice_create_second_fails:
  assumes "fst (invoice_create fp today period dc invoice_date d) = Inl DetachedInstanceError"
  shows "invoice_create fp' today' period' dc invoice_date'
      (snd (invoice_create fp today period dc invoice_date d)) =
     (Inl Challan_not_available, snd (invoice_create fp today period dc invoice_date d))"
proof -
  from invoice_create_flips [OF assms] obtain c where
    "find (\<lambda>c. dc_id c = dc) (challans (snd (invoice_create fp today period dc invoice_date d))) =
         Some (c \<lparr> dc_status := ''INVOICED'' \<rparr>)"
    by blast
  then show ?thesis
    by (intro invoice_create_not_open) simp
qed

text \<open>
  Claim C3: a challan is created only from an approved order, which becomes dispatched,
  the challan open; an invoice is created only from an open challan, which becomes
  invoiced, so a challan has at most one invoice; and no operation takes a document out
  of the states DISPATCHED, INVOICED, CANCELLED, POSTED.

  \<^verbatim>\<open>so_approve\<close> sets the status of any existing order to APPROVED without looking at
  the status it has, where \<^verbatim>\<open>challan_create\<close>, \<^verbatim>\<open>invoice_create\<close> and
  \<^verbatim>\<open>returns_post\<close> check the state they start from. A dispatched order is approved a
  second time and dispatched a second time: two challans for one order, the stock taken
  twice.
\<close>

theorem so_approve_leaves_dispatched:
  "map so_status (sales_orders dispatched_db) = [''DISPATCHED'']
   \<and> fst (so_approve 1 dispatched_db) = Inr ()
   \<and> map so_status (sales_orders (snd (so_approve 1 dispatched_db))) = [''APPROVED'']
   \<and> fst (challan_create ''202501'' 1 (snd (so_approve 1 dispatched_db))) = Inr ()
   \<and> map dc_so_id
         (challans (snd (challan_create ''202501'' 1 (snd (so_approve 1 dispatched_db))))) =
       [1, 1]
   \<and> stock_qty dispatched_db 1 1 = 3
   \<and> stock_qty (snd (challan_create ''202501'' 1 (snd (so_approve 1 dispatched_db)))) 1 1 = 1"
  by code_simp

subsection \<open>Invoice totals\<close>

lemma totals_loop_acc:
  "totals_loop fp ls (s, g) =
     (foldl (f_add fp) s (map (line_taxable fp) ls), foldl (f_add fp) g (map (line_gst fp) ls))"
  by (induction ls arbitrary: s g) (simp_all add: line_taxable_def line_gst_def Let_def)

lemma invoice_totals_spec: "invoice_totals fp d i = spec_invoice_totals fp d i"
  by (simp add: invoice_totals_def spec_invoice_totals_def totals_loop_acc acc_sum_def Let_def)

text \<open>
  Claim C5: \<^verbatim>\<open>invoice_totals\<close> gives the subtotal as the sum over the invoice's lines
  of the taxable value (quantity times rate, less the discount percentage of it), the tax
  as the sum of the taxable values' tax percentages, the total as their sum, the paid
  amount as the sum of the invoice's payments and the balance as total less paid; only
  these five results are rounded to two decimals, no line is. The specification's two
  lines give 230, 21.6 and 251.6.

  The sums accumulate from 0 in row order. In the example, \<open>fl (216 / 10)\<close> and
  \<open>fl (2516 / 10)\<close> are the doubles that Python writes \<^verbatim>\<open>21.6\<close> and \<^verbatim>\<open>251.6\<close>.
\<close>

theorem invoice_totals_formula:
  "invoice_totals fp d invoice_id = spec_invoice_totals fp d invoice_id
   \<and> invoice_totals binary64 two_line_db 1 =
       \<lparr> t_subtotal = 230, t_gst = fl (216 / 10), t_total = fl (2516 / 10), t_paid = 0,
         t_balance = fl (2516 / 10) \<rparr>"
proof
  show "invoice_totals fp d invoice_id = spec_invoice_totals fp d invoice_id"
    by (rule invoice_totals_spec)
  show "invoice_totals binary64 two_line_db 1 =
       \<lparr> t_subtotal = 230, t_gst = fl (216 / 10), t_total = fl (2516 / 10), t_paid = 0,
         t_balance = fl (2516 / 10) \<rparr>"
    by code_simp
qed

subsection \<open>Invoice status\<close>

text \<open>In the older application a payment is followed by \<^verbatim>\<open>update_invoice_status\<close>: the
  invoice of 500 is PAID after a payment of 500.\<close>

lemma payments_create_example:
  "map v1_inv_status
     (v1_invoices (snd (payments_create binary64 1 1 (Some 739000) 500 v1_unpaid_db))) =
   [''PAID'']"
  by code_simp

text \<open>
  Claim C6: after a mutation that changes an invoice's totals (a new line, a payment) the
  invoice's status is derived again: OPEN when the total is 0 or less, PAID when the
  balance is at most 0.001, PARTIAL when something is paid and the balance is above
  0.001, OPEN otherwise.

  \<^verbatim>\<open>add_payment\<close> of \<^verbatim>\<open>main.py\<close> stores the payment and never writes the invoice's
  status; \<^verbatim>\<open>payments_create\<close> of \<^verbatim>\<open>app.py\<close> calls \<^verbatim>\<open>update_invoice_status\<close> after
  the same insert. An invoice of 500 that receives a payment of 500 keeps the status
  OPEN, where the rule gives PAID.
\<close>

theorem add_payment_keeps_status:
  "fst (add_payment 1 500 unpaid_db) = Inr ()
   \<and> map inv_status (invoices (snd (add_payment 1 500 unpaid_db))) = [''OPEN'']
   \<and> status_rule (invoice_totals binary64 (snd (add_payment 1 500 unpaid_db)) 1) = ''PAID''"
  by code_simp

subsection \<open>Pricing resolver\<close>

lemma py_clamp: "py_max 0 (py_min 100 x) = spec_clamp x"
  by (simp add: py_max_def py_min_def spec_clamp_def)

lemma spec_clamp_range: "0 \<le> spec_clamp x \<and> spec_clamp x \<le> 100"
  by (simp add: spec_clamp_def)

text \<open>
  Claim C7: for every party and item, \<^verbatim>\<open>apply_party_price\<close> returns, when a PartyPrice
  row exists for the pair, the row's discount percentage clamped to the range from 0 to
  100 and the rate \<^verbatim>\<open>round(sale_price * (1 - discount / 100), 2)\<close>; when no row exists,
  the item's sale price and the discount 0; it changes no table.

  The function only reads the session: its model takes the database and gives back the
  pair alone. \<open>price_row\<close> is the query's first row.
\<close>

theorem apply_party_price_resolved:
  "(price_row d party_id it = None \<longrightarrow>
      (\<forall>pp\<in>set (party_prices d). pp_party_id pp \<noteq> party_id \<or> pp_item_id pp \<noteq> it_id it)
      \<and> apply_party_price fp d party_id it = (it_sale_price it, 0))
   \<and> (\<forall>pp. price_row d party_id it = Some pp \<longrightarrow>
         pp \<in> set (party_prices d) \<and> pp_party_id pp = party_id \<and> pp_item_id pp = it_id it
         \<and> apply_party_price fp d party_id it =
             (f_round2 fp
                (f_mul fp (it_sale_price it)
                   (f_sub fp 1 (f_div fp (spec_clamp (pp_discount_percent pp)) 100))),
              spec_clamp (pp_discount_percent pp))
         \<and> 0 \<le> snd (apply_party_price fp d party_id it)
         \<and> snd (apply_party_price fp d party_id it) \<le> 100)"
proof (intro conjI impI allI)
  assume n: "price_row d party_id it = None"
  then show "\<forall>pp\<in>set (party_prices d). pp_party_id pp \<noteq> party_id \<or> pp_item_id pp \<noteq> it_id it"
    by (auto simp: price_row_def find_None_iff)
  from n show "apply_party_price fp d party_id it = (it_sale_price it, 0)"
    by (simp add: apply_party_price_def price_row_def)
next
  fix pp
  assume s: "price_row d party_id it = Some pp"
  then show "pp \<in> set (party_prices d)" "pp_party_id pp = party_id" "pp_item_id pp = it_id it"
    by (auto simp: price_row_def dest: find_Some_set)
  from s show e: "apply_party_price fp d party_id it =
             (f_round2 fp
                (f_mul fp (it_sale_price it)
                   (f_sub fp 1 (f_div fp (spec_clamp (pp_discount_percent pp)) 100))),
              spec_clamp (pp_discount_percent pp))"
    by (simp add: apply_party_price_def price_row_def py_clamp Let_def)
  show "0 \<le> snd (apply_party_price fp d party_id it)"
    and "snd (apply_party_price fp d party_id it) \<le> 100"
    by (simp_all add: e spec_clamp_range)
qed

text \<open>An item priced 100: an override of 150 percent is clamped to 100 and gives the rate
  0, one of 10 percent gives 90, one of -5 percent is clamped to 0, and a party without
  override pays the sale price.\<close>

theorem apply_party_price_witness:
  "apply_party_price binary64 price_db 1 price_item = (0, 100)
   \<and> apply_party_price binary64 price_db 2 price_item = (90, 10)
   \<and> apply_party_price binary64 price_db 3 price_item = (100, 0)
   \<and> apply_party_price binary64 price_db 4 price_item = (100, 0)"
proof -
  have r1: "price_row price_db 1 price_item =
      Some \<lparr> pp_party_id = 1, pp_item_id = 1, pp_discount_percent = 150 \<rparr>"
    by code_simp
  have r2: "price_row price_db 2 price_item =
      Some \<lparr> pp_party_id = 2, pp_item_id = 1, pp_discount_percent = 10 \<rparr>"
    by code_simp
  have r3: "price_row price_db 3 price_item =
      Some \<lparr> pp_party_id = 3, pp_item_id = 1, pp_discount_percent = - 5 \<rparr>"
    by code_simp
  have r4: "price_row price_db 4 price_item = None"
    by code_simp
  note t = apply_party_price_resolved [of price_db _ price_item binary64]
  have v1: "(f_round2 binary64 (f_mul binary64 (it_sale_price price_item)
        (f_sub binary64 1 (f_div binary64 (spec_clamp 150) 100))), spec_clamp 150) = (0, 100)"
    by code_simp
  have v2: "(f_round2 binary64 (f_mul binary64 (it_sale_price price_item)
        (f_sub binary64 1 (f_div binary64 (spec_clamp 10) 100))), spec_clamp 10) = (90, 10)"
    by code_simp
  have v3: "(f_round2 binary64 (f_mul binary64 (it_sale_price price_item)
        (f_sub binary64 1 (f_div binary64 (spec_clamp (- 5)) 100))), spec_clamp (- 5)) = (100, 0)"
    by code_simp
  have v4: "it_sale_price price_item = 100"
    by code_simp
  from t [of 1] r1 v1 have "apply_party_price binary64 price_db 1 price_item = (0, 100)"
    by simp
  moreover from t [of 2] r2 v2 have "apply_party_price binary64 price_db 2 price_item = (90, 10)"
    by simp
  moreover from t [of 3] r3 v3 have "apply_party_price binary64 price_db 3 price_item = (100, 0)"
    by simp
  moreover from t [of 4] r4 v4 have "apply_party_price binary64 price_db 4 price_item = (100, 0)"
    by simp
  ultimately show ?thesis by simp
qed

subsection \<open>Numbering\<close>

lemma startswith_nonempty: "p \<noteq> [] \<Longrightarrow> startswith x p \<Longrightarrow> x \<noteq> []"
  by (cases x; cases p) simp_all


lemma collect_nums_kept:
  "p \<noteq> [] \<Longrightarrow> collect_nums p xs acc = acc @ kept_numbers p xs"
proof (induction xs arbitrary: acc)
  case Nil
  then show ?case by (simp add: kept_numbers_def)
next
  case (Cons x xs)
  have ne: "startswith x p \<Longrightarrow> x \<noteq> []"
    using Cons.prems by (rule startswith_nonempty)
  show ?case
    using Cons.IH [OF Cons.prems] ne
    by (auto simp: kept_numbers_def split: option.splits)
qed

lemma foldl_max: "foldl (\<lambda>m y. if m < y then y else m) a ys = fold max ys (a::int)"
  by (induction ys arbitrary: a) (simp_all add: max_def not_less less_le)

lemma py_max_list_Max: "nums \<noteq> [] \<Longrightarrow> py_max_list nums = Max (set nums)"
proof (cases nums)
  case Nil
  then show "nums \<noteq> [] \<Longrightarrow> ?thesis" by simp
next
  case (Cons x xs)
  have "Max (set (x # xs)) = fold max xs x"
    by (rule Max.set_eq_fold)
  then show ?thesis
    using Cons by (simp only: py_max_list.simps foldl_max)
qed

lemma replace_head:
  "p \<noteq> [] \<Longrightarrow> startswith x p \<Longrightarrow> py_replace x p [] = py_replace (drop (length p) x) p []"
  by (cases x) (simp_all add: py_replace_def)

lemma period_prefix_nonempty: "period_prefix prefix period \<noteq> []"
  by (simp add: period_prefix_def)

lemma next_no_kept:
  "next_no prefix period d =
     (case py_str (serial (kept_numbers (period_prefix prefix period) (existing_numbers prefix d))) of
        None \<Rightarrow> Inl ValueError
      | Some t \<Rightarrow> Inr (period_prefix prefix period @ zfill 4 t))"
proof -
  let ?p = "period_prefix prefix period"
  let ?k = "kept_numbers ?p (existing_numbers prefix d)"
  have c: "collect_nums ?p (existing_numbers prefix d) [] = ?k"
    using collect_nums_kept [OF period_prefix_nonempty, of prefix period _ "[]"] by simp
  have n: "(if ?k \<noteq> [] then py_max_list ?k + 1 else 1) = serial ?k"
    by (cases "?k = []") (simp_all add: serial_def py_max_list_Max)
  show ?thesis
    unfolding next_no_def Let_def period_prefix_def [symmetric] c n ..
qed


lemma digit_val_range: "is_digit c \<Longrightarrow> 0 \<le> digit_val c \<and> digit_val c \<le> 9"
  by (simp add: is_digit_def digit_val_def Let_def)

lemma digits_acc_bound:
  "digits_acc acc cs = Some k \<Longrightarrow> 0 \<le> acc \<Longrightarrow> acc < 10 ^ m \<Longrightarrow>
     0 \<le> k \<and> k < 10 ^ (m + length cs)"
proof (induction cs arbitrary: acc m)
  case Nil
  then show ?case by simp
next
  case (Cons c cs)
  show ?case
  proof (cases "is_digit c")
    case True
    with Cons.prems have r: "digits_acc (10 * acc + digit_val c) cs = Some k"
      by simp
    have v: "0 \<le> digit_val c" "digit_val c \<le> 9"
      using True by (simp_all add: digit_val_range)
    have "10 * acc + digit_val c < 10 ^ Suc m"
      using Cons.prems(3) v by simp
    moreover have "0 \<le> 10 * acc + digit_val c"
      using Cons.prems(2) v by simp
    ultimately have "0 \<le> k \<and> k < 10 ^ (Suc m + length cs)"
      using r by (intro Cons.IH)
    then show ?thesis by simp
  next
    case False
    with Cons.prems have r: "digits_acc acc cs = Some k"
      by (auto split: if_splits list.splits)
    from Cons.IH [OF r Cons.prems(2,3)] have "0 \<le> k" and "k < 10 ^ (m + length cs)"
      by simp_all
    moreover have "(10::int) ^ (m + length cs) \<le> 10 ^ (m + length (c # cs))"
      by (intro power_increasing) simp_all
    ultimately show ?thesis by simp
  qed
qed

lemma py_digits_bound: "py_digits s = Some k \<Longrightarrow> 0 \<le> k \<and> k < 10 ^ length s"
proof (cases s)
  case Nil
  then show "py_digits s = Some k \<Longrightarrow> ?thesis"
    by (simp add: py_digits_def)
next
  case (Cons c cs)
  assume "py_digits s = Some k"
  with Cons have d: "is_digit c" and r: "digits_acc (digit_val c) cs = Some k"
    by (simp_all add: py_digits_def split: if_splits)
  have "0 \<le> digit_val c" "digit_val c < 10 ^ 1"
    using d digit_val_range [of c] by simp_all
  from digits_acc_bound [OF r this] show ?thesis
    using Cons by simp
qed







lemma map_filter_mem:
  "k \<in> set (List.map_filter f xs) \<Longrightarrow> \<exists>x\<in>set xs. f x = Some k"
  by (induction xs) (auto simp: List.map_filter_simps split: option.splits)





text \<open>The numbers that the handlers write. A number of the form that \<^verbatim>\<open>next_no\<close>
  issues holds the period prefix of any period only at its head; and \<^verbatim>\<open>next_no\<close>, for a
  period of digits and a table of such numbers, issues a number of that form.\<close>

lemma startswith_set: "startswith x p \<Longrightarrow> set p \<subseteq> set x"
  by (induction x p rule: startswith.induct) auto

lemma startswith_append_same: "startswith (a @ x) (a @ p) = startswith x p"
  by (induction a) simp_all

lemma replace_from_absent:
  assumes "c0 \<in> set old" and "c0 \<notin> set s"
  shows "replace_from old new s = s"
  using assms(2)
proof (induction s)
  case Nil
  then show ?case by simp
next
  case (Cons c cs)
  have "\<not> startswith (c # cs) old"
    using startswith_set [of "c # cs" old] assms(1) Cons.prems by blast
  then show ?case
    using Cons by simp
qed

lemma digit_not_hyphen: "is_digit c \<Longrightarrow> c \<noteq> CHR ''-'' \<and> c \<noteq> CHR ''+'' \<and> \<not> is_space c"
  by (auto simp: is_digit_def is_space_def Let_def)

lemma period_of_issued:
  assumes "startswith (per @ CHR ''-'' # ds) (period @ [CHR ''-''])"
    and "list_all is_digit per" and "list_all is_digit ds"
  shows "period = per"
  using assms
proof (induction per arbitrary: period)
  case Nil
  show ?case
  proof (cases period)
    case Nil
    then show ?thesis by simp
  next
    case (Cons c cs)
    from Nil.prems(1) [unfolded Cons append_Nil append_Cons startswith.simps]
    have "startswith ds (cs @ [CHR ''-''])"
      by (rule conjunct2)
    then have "CHR ''-'' \<in> set ds"
      using startswith_set by fastforce
    with Nil.prems(3) show ?thesis
      using digit_not_hyphen by (auto simp: list_all_iff)
  qed
next
  case (Cons a per)
  show ?case
  proof (cases period)
    case Nil
    with Cons.prems(1,2) show ?thesis
      using digit_not_hyphen [of a] by simp
  next
    case c: (Cons c cs)
    with Cons.prems have "a = c" and "startswith (per @ CHR ''-'' # ds) (cs @ [CHR ''-''])"
      and "list_all is_digit per"
      by simp_all
    with Cons.IH [of cs] Cons.prems(3) c show ?thesis
      by simp
  qed
qed

lemma issued_suffix:
  assumes "x = prefix @ ''-'' @ per @ ''-'' @ ds"
    and "list_all is_digit per" and "list_all is_digit ds"
    and "startswith x (period_prefix prefix period)"
  shows "period = per" and "drop (length (period_prefix prefix period)) x = ds"
proof -
  have "startswith ((prefix @ ''-'') @ (per @ CHR ''-'' # ds)) ((prefix @ ''-'') @ (period @ [CHR ''-'']))"
    using assms(1,4) by (simp add: period_prefix_def)
  then have "startswith (per @ CHR ''-'' # ds) (period @ [CHR ''-''])"
    by (simp only: startswith_append_same)
  then show p: "period = per"
    using assms(2,3) by (rule period_of_issued)
  show "drop (length (period_prefix prefix period)) x = ds"
    unfolding p assms(1) by (simp add: period_prefix_def)
qed

lemma issued_head_only:
  assumes "issued prefix x" and "startswith x (period_prefix prefix period)"
  shows "head_only (period_prefix prefix period) x"
proof -
  from assms(1) obtain per ds where x: "x = prefix @ ''-'' @ per @ ''-'' @ ds"
    and d: "list_all is_digit per" "list_all is_digit ds"
    by (auto simp: issued_def)
  have s: "drop (length (period_prefix prefix period)) x = ds"
    using x d assms(2) by (rule issued_suffix)
  have "CHR ''-'' \<notin> set ds"
    using d(2) digit_not_hyphen by (auto simp: list_all_iff)
  moreover have "CHR ''-'' \<in> set (period_prefix prefix period)"
    by (simp add: period_prefix_def)
  ultimately have "replace_from (period_prefix prefix period) [] ds = ds"
    by (intro replace_from_absent)
  then show ?thesis
    by (simp add: head_only_def s py_replace_def period_prefix_nonempty)
qed

lemma strip_set: "set (strip s) \<subseteq> set s"
proof -
  have "set (strip s) \<subseteq> set (dropWhile is_space s)"
    unfolding strip_def set_rev using set_dropWhileD [of _ is_space "rev (dropWhile is_space s)"]
    by auto
  also have "\<dots> \<subseteq> set s"
    using set_dropWhileD [of _ is_space s] by auto
  finally show ?thesis .
qed

lemma py_int_negative:
  assumes "py_int s = Some k" and "k < 0"
  shows "CHR ''-'' \<in> set s"
proof -
  from assms(1) obtain c cs where st: "strip s = c # cs"
    by (cases "strip s") (simp_all add: py_int_def)
  have "c = CHR ''-''"
  proof (rule ccontr)
    assume "c \<noteq> CHR ''-''"
    with assms(1) st obtain t where "py_digits t = Some k"
      by (auto simp: py_int_def split: if_splits)
    from py_digits_bound [OF this] assms(2) show False
      by simp
  qed
  with st strip_set [of s] show ?thesis
    by auto
qed

lemma digit_char_digit: "0 \<le> d \<Longrightarrow> d < 10 \<Longrightarrow> is_digit (digit_char d)"
  by (simp add: is_digit_def digit_char_def Let_def)

lemma digits_of_digits: "0 \<le> n \<Longrightarrow> list_all is_digit (digits_of n) \<and> digits_of n \<noteq> []"
proof (induction n rule: digits_of.induct)
  case (1 n)
  show ?case
  proof (cases "n < 10")
    case True
    then show ?thesis
      using "1.prems" by (subst (1 2) digits_of.simps) (simp add: digit_char_digit)
  next
    case False
    then have "list_all is_digit (digits_of (n div 10))"
      using "1.IH" "1.prems" by simp
    moreover have "is_digit (digit_char (n mod 10))"
      by (intro digit_char_digit) simp_all
    ultimately show ?thesis
      using False by (subst (1 2) digits_of.simps) simp
  qed
qed

lemma zfill_digits:
  assumes "list_all is_digit s" and "s \<noteq> []"
  shows "list_all is_digit (zfill w s) \<and> zfill w s \<noteq> []"
proof -
  obtain c cs where s: "s = c # cs"
    using assms(2) by (cases s) simp_all
  have z: "is_digit CHR ''0''"
    by (simp add: is_digit_def)
  have "c \<noteq> CHR ''+''" "c \<noteq> CHR ''-''"
    using assms(1) s digit_not_hyphen [of c] by simp_all
  then have "zfill w s = (if w \<le> length s then s else replicate (w - length s) CHR ''0'' @ s)"
    by (simp add: zfill_def s Let_def)
  then show ?thesis
    using assms z by (simp add: list_all_iff)
qed

lemma kept_issued_nonneg:
  assumes "\<forall>y\<in>set xs. issued prefix y"
    and "k \<in> set (kept_numbers (period_prefix prefix period) xs)"
  shows "0 \<le> k"
proof (rule ccontr)
  let ?p = "period_prefix prefix period"
  assume neg: "\<not> 0 \<le> k"
  from map_filter_mem [OF assms(2) [unfolded kept_numbers_def]]
  obtain y where y: "y \<in> set xs" "startswith y ?p" and k: "py_int (py_replace y ?p []) = Some k"
    by (auto split: if_splits)
  from assms(1) y(1) obtain per ds where f: "y = prefix @ ''-'' @ per @ ''-'' @ ds"
    and d: "list_all is_digit per" "list_all is_digit ds"
    by (auto simp: issued_def)
  have s: "drop (length ?p) y = ds"
    using f d y(2) by (rule issued_suffix)
  have "head_only ?p y"
    using assms(1) y by (intro issued_head_only) blast
  then have "py_replace y ?p [] = ds"
    using replace_head [OF period_prefix_nonempty y(2)] by (simp add: head_only_def s)
  with k neg have "CHR ''-'' \<in> set ds"
    by (intro py_int_negative [of ds k]) simp_all
  with d(2) show False
    using digit_not_hyphen by (auto simp: list_all_iff)
qed

lemma next_no_issued:
  assumes "next_no prefix period d = Inr x" and "list_all is_digit period"
    and "\<forall>y\<in>set (existing_numbers prefix d). issued prefix y"
  shows "issued prefix x"
proof -
  let ?p = "period_prefix prefix period"
  let ?k = "kept_numbers ?p (existing_numbers prefix d)"
  from assms(1) have x: "x = ?p @ zfill 4 (decimal (serial ?k))"
    by (auto simp: next_no_kept py_str_def split: option.splits if_splits)
  have "\<forall>k\<in>set ?k. 0 \<le> k"
    using assms(3) kept_issued_nonneg by blast
  then have "0 \<le> serial ?k"
  proof (cases "?k = []")
    case True
    then show ?thesis by (simp add: serial_def)
  next
    case False
    then have "Max (set ?k) \<in> set ?k"
      by (intro Max_in) simp_all
    with \<open>\<forall>k\<in>set ?k. 0 \<le> k\<close> have "0 \<le> Max (set ?k)"
      by blast
    then show ?thesis
      using False by (simp add: serial_def)
  qed
  then have "decimal (serial ?k) = digits_of (serial ?k)"
    and "list_all is_digit (digits_of (serial ?k)) \<and> digits_of (serial ?k) \<noteq> []"
    by (simp_all add: decimal_def digits_of_digits)
  then have "list_all is_digit (zfill 4 (decimal (serial ?k))) \<and> zfill 4 (decimal (serial ?k)) \<noteq> []"
    using zfill_digits by simp
  then show ?thesis
    using assms(2) unfolding issued_def x period_prefix_def by auto
qed

subsection \<open>Credit control\<close>

lemma next_no_error: "next_no prefix period d = Inl e \<Longrightarrow> e = ValueError"
  by (auto simp: next_no_def Let_def split: option.splits)

lemma credit_control_errors:
  "credit_control fp today d dc pa = Some e \<Longrightarrow> e \<noteq> ValueError \<and> e \<noteq> DetachedInstanceError"
  by (auto simp: credit_control_def Let_def split: if_splits)

lemma invoice_create_failure_unchanged:
  assumes "fst (invoice_create fp today period dc invoice_date d) = Inl e"
    and "e \<noteq> DetachedInstanceError"
  shows "snd (invoice_create fp today period dc invoice_date d) = d"
  using assms
  by (auto simp: invoice_create_def issue_invoice_raises
      split: option.splits if_splits sum.splits)

lemma invoice_create_found:
  assumes "find (\<lambda>c. dc_id c = dc) (challans d) = Some c"
    and "dc_status c = ''OPEN''"
    and "find (\<lambda>ord. so_id ord = dc_so_id c) (sales_orders d) = Some so"
    and "find (\<lambda>p. p_id p = so_party_id so) (parties d) = Some pa"
  shows "invoice_create fp today period dc invoice_date d =
     (case credit_control fp today d dc pa of
        Some e \<Rightarrow> (Inl e, d)
      | None \<Rightarrow>
          (case next_no ''INV'' period d of
             Inl e \<Rightarrow> (Inl e, d)
           | Inr no \<Rightarrow>
               (case invoice_date of
                  None \<Rightarrow> (Inl ValueError, d)
                | Some idate \<Rightarrow> issue_invoice fp no dc so pa idate d)))"
  using assms by (simp add: invoice_create_def)

text \<open>
  Claim C4, as the code has it: credit control in \<^verbatim>\<open>invoice_create\<close> runs before any
  invoice row is written and raises on the first check that fails, in this order: the
  party is blocked; the party's overdue amount is above 0; the party's credit limit is
  not 0 and outstanding plus projected total is above it, reported with the limit, the
  outstanding amount and the rounded projected total. Each of these failures, and every
  other failure before the invoice is written, leaves the database as it was: no invoice
  row, the challan still open. (The one error that comes after the invoice is written is
  the \<^verbatim>\<open>DetachedInstanceError\<close> of \<open>issue_invoice\<close>.)

  The theorem is about an open challan whose order and party are found. Each equation
  says exactly when the handler answers with that error.
\<close>

theorem credit_control_order:
  assumes "find (\<lambda>c. dc_id c = dc) (challans d) = Some c"
    and "dc_status c = ''OPEN''"
    and "find (\<lambda>ord. so_id ord = dc_so_id c) (sales_orders d) = Some so"
    and "find (\<lambda>p. p_id p = so_party_id so) (parties d) = Some pa"
  shows
    "(fst (invoice_create fp today period dc invoice_date d) = Inl Party_is_BLOCKED)
       = p_is_blocked pa
     \<and> (fst (invoice_create fp today period dc invoice_date d) = Inl (Overdue_pending v))
       = (\<not> p_is_blocked pa \<and> 0 < s_overdue (calc_party_summary fp d pa today)
          \<and> v = s_overdue (calc_party_summary fp d pa today))
     \<and> (fst (invoice_create fp today period dc invoice_date d)
          = Inl (Credit_limit_exceeded cl outst newinv))
       = (\<not> p_is_blocked pa \<and> \<not> 0 < s_overdue (calc_party_summary fp d pa today)
          \<and> p_credit_limit pa \<noteq> 0
          \<and> p_credit_limit pa <
              f_add fp (s_outstanding (calc_party_summary fp d pa today))
                (projected_total fp d (p_id pa)
                   (filter (\<lambda>l. dcl_dc_id l = dc) (challan_lines d)))
          \<and> cl = p_credit_limit pa
          \<and> outst = s_outstanding (calc_party_summary fp d pa today)
          \<and> newinv = f_round2 fp (projected_total fp d (p_id pa)
                   (filter (\<lambda>l. dcl_dc_id l = dc) (challan_lines d))))
     \<and> (\<forall>e. fst (invoice_create fp today period dc invoice_date d) = Inl e
             \<and> e \<noteq> DetachedInstanceError \<longrightarrow>
           snd (invoice_create fp today period dc invoice_date d) = d
           \<and> invoices (snd (invoice_create fp today period dc invoice_date d)) = invoices d
           \<and> find (\<lambda>c. dc_id c = dc)
                (challans (snd (invoice_create fp today period dc invoice_date d))) = Some c)"
proof -
  let ?R = "invoice_create fp today period dc invoice_date d"
  have R: "?R =
     (case credit_control fp today d dc pa of
        Some e \<Rightarrow> (Inl e, d)
      | None \<Rightarrow>
          (case next_no ''INV'' period d of
             Inl e \<Rightarrow> (Inl e, d)
           | Inr no \<Rightarrow>
               (case invoice_date of
                  None \<Rightarrow> (Inl ValueError, d)
                | Some idate \<Rightarrow> issue_invoice fp no dc so pa idate d)))"
    using assms by (rule invoice_create_found)
  have a: "(fst ?R = Inl Party_is_BLOCKED) = p_is_blocked pa"
    unfolding R
    by (auto simp: credit_control_def Let_def issue_invoice_raises
        split: option.splits sum.splits dest: next_no_error)
  have b: "(fst ?R = Inl (Overdue_pending v))
       = (\<not> p_is_blocked pa \<and> 0 < s_overdue (calc_party_summary fp d pa today)
          \<and> v = s_overdue (calc_party_summary fp d pa today))"
    unfolding R
    by (auto simp: credit_control_def Let_def issue_invoice_raises
        split: option.splits sum.splits dest: next_no_error)
  have c: "(fst ?R = Inl (Credit_limit_exceeded cl outst newinv))
       = (\<not> p_is_blocked pa \<and> \<not> 0 < s_overdue (calc_party_summary fp d pa today)
          \<and> p_credit_limit pa \<noteq> 0
          \<and> p_credit_limit pa <
              f_add fp (s_outstanding (calc_party_summary fp d pa today))
                (projected_total fp d (p_id pa)
                   (filter (\<lambda>l. dcl_dc_id l = dc) (challan_lines d)))
          \<and> cl = p_credit_limit pa
          \<and> outst = s_outstanding (calc_party_summary fp d pa today)
          \<and> newinv = f_round2 fp (projected_total fp d (p_id pa)
                   (filter (\<lambda>l. dcl_dc_id l = dc) (challan_lines d))))"
    unfolding R
    by (auto simp: credit_control_def Let_def issue_invoice_raises
        split: option.splits sum.splits dest: next_no_error)
  have e: "\<forall>e. fst ?R = Inl e \<and> e \<noteq> DetachedInstanceError \<longrightarrow>
      snd ?R = d \<and> invoices (snd ?R) = invoices d
      \<and> find (\<lambda>c. dc_id c = dc) (challans (snd ?R)) = Some c"
    using assms(1) by (auto dest: invoice_create_failure_unchanged)
  from a b c e show ?thesis by blast
qed

text \<open>
  Claim C4 as the specification states it makes the limit check only for a credit limit
  above 0. The code tests \<^verbatim>\<open>party.credit_limit\<close> for truth, which holds for every
  limit other than 0: a party with the limit -1 is refused.
\<close>

theorem credit_control_counterexample:
  "map p_credit_limit (parties negative_limit_db) = [- 1]
   \<and> \<not> 0 < p_credit_limit (credit_party \<lparr> p_credit_limit := - 1 \<rparr>)
   \<and> fst (invoice_create binary64 739010 ''202501'' 2 (Some 739010) negative_limit_db) =
       Inl (Credit_limit_exceeded (- 1) 800 300)"
  by code_simp

text \<open>The specification's example: limit 1000, outstanding 800, a new invoice of 300.
  The same party past its payment terms is refused for the overdue amount before the
  limit is looked at, and a blocked party before anything else.\<close>

theorem credit_control_witness:
  "invoice_create binary64 739010 ''202501'' 2 (Some 739010) credit_db =
     (Inl (Credit_limit_exceeded 1000 800 300), credit_db)
   \<and> invoice_create binary64 739010 ''202501'' 2 (Some 739010) overdue_db =
     (Inl (Overdue_pending 800), overdue_db)
   \<and> invoice_create binary64 739010 ''202501'' 2 (Some 739010) blocked_db =
     (Inl Party_is_BLOCKED, blocked_db)"
proof -
  let ?c = "\<lparr> dc_id = 2, dc_no = ''DC-202501-0002'', dc_so_id = 2, dc_status = ''OPEN'' \<rparr>"
  let ?so = "\<lparr> so_id = 2, so_no = ''SO-202501-0002'', so_party_id = 1, so_warehouse_id = 1,
            so_status = ''DISPATCHED'' \<rparr>"
  have open_c: "dc_status ?c = ''OPEN''"
    by simp
  have c1: "find (\<lambda>c. dc_id c = 2) (challans credit_db) = Some ?c"
    and s1: "find (\<lambda>ord. so_id ord = dc_so_id ?c) (sales_orders credit_db) = Some ?so"
    and p1: "find (\<lambda>p. p_id p = so_party_id ?so) (parties credit_db) = Some credit_party"
    by code_simp+
  have c2: "find (\<lambda>c. dc_id c = 2) (challans overdue_db) = Some ?c"
    and s2: "find (\<lambda>ord. so_id ord = dc_so_id ?c) (sales_orders overdue_db) = Some ?so"
    and p2: "find (\<lambda>p. p_id p = so_party_id ?so) (parties overdue_db) =
        Some (credit_party \<lparr> p_payment_terms_days := 5 \<rparr>)"
    by code_simp+
  have c3: "find (\<lambda>c. dc_id c = 2) (challans blocked_db) = Some ?c"
    and s3: "find (\<lambda>ord. so_id ord = dc_so_id ?c) (sales_orders blocked_db) = Some ?so"
    and p3: "find (\<lambda>p. p_id p = so_party_id ?so) (parties blocked_db) =
        Some (credit_party \<lparr> p_payment_terms_days := 5, p_is_blocked := True \<rparr>)"
    by code_simp+
  note t1 = credit_control_order [OF c1 open_c s1 p1, of binary64 739010 "''202501''" "Some 739010"]
  note t2 = credit_control_order [OF c2 open_c s2 p2, of binary64 739010 "''202501''" "Some 739010"]
  note t3 = credit_control_order [OF c3 open_c s3 p3, of binary64 739010 "''202501''" "Some 739010"]
  have "\<not> p_is_blocked credit_party
      \<and> \<not> 0 < s_overdue (calc_party_summary binary64 credit_db credit_party 739010)
      \<and> p_credit_limit credit_party \<noteq> 0
      \<and> p_credit_limit credit_party <
          f_add binary64 (s_outstanding (calc_party_summary binary64 credit_db credit_party 739010))
            (projected_total binary64 credit_db (p_id credit_party)
               (filter (\<lambda>l. dcl_dc_id l = 2) (challan_lines credit_db)))
      \<and> 1000 = p_credit_limit credit_party
      \<and> 800 = s_outstanding (calc_party_summary binary64 credit_db credit_party 739010)
      \<and> 300 = f_round2 binary64 (projected_total binary64 credit_db (p_id credit_party)
               (filter (\<lambda>l. dcl_dc_id l = 2) (challan_lines credit_db)))"
    by code_simp
  with t1 [of _ 1000 800 300]
  have f1: "fst (invoice_create binary64 739010 ''202501'' 2 (Some 739010) credit_db) =
      Inl (Credit_limit_exceeded 1000 800 300)"
    by blast
  have "\<not> p_is_blocked (credit_party \<lparr> p_payment_terms_days := 5 \<rparr>)
      \<and> 0 < s_overdue (calc_party_summary binary64 overdue_db
                (credit_party \<lparr> p_payment_terms_days := 5 \<rparr>) 739010)
      \<and> 800 = s_overdue (calc_party_summary binary64 overdue_db
                (credit_party \<lparr> p_payment_terms_days := 5 \<rparr>) 739010)"
    by code_simp
  with t2 [of 800]
  have f2: "fst (invoice_create binary64 739010 ''202501'' 2 (Some 739010) overdue_db) =
      Inl (Overdue_pending 800)"
    by blast
  have "p_is_blocked (credit_party \<lparr> p_payment_terms_days := 5, p_is_blocked := True \<rparr>)"
    by simp
  with t3
  have f3: "fst (invoice_create binary64 739010 ''202501'' 2 (Some 739010) blocked_db) =
      Inl Party_is_BLOCKED"
    by blast
  have n1: "Credit_limit_exceeded 1000 800 300 \<noteq> DetachedInstanceError"
    and n2: "Overdue_pending 800 \<noteq> DetachedInstanceError"
    and n3: "Party_is_BLOCKED \<noteq> DetachedInstanceError"
    by simp_all
  from t1 f1 n1
  have "snd (invoice_create binary64 739010 ''202501'' 2 (Some 739010) credit_db) = credit_db"
    by blast
  moreover from t2 f2 n2
  have "snd (invoice_create binary64 739010 ''202501'' 2 (Some 739010) overdue_db) = overdue_db"
    by blast
  moreover from t3 f3 n3
  have "snd (invoice_create binary64 739010 ''202501'' 2 (Some 739010) blocked_db) = blocked_db"
    by blast
  ultimately show ?thesis
    using f1 f2 f3 by (simp add: prod_eq_iff)
qed

subsection \<open>Invoice lines and the projected total\<close>

lemma invoice_line_of_cong:
  "items d1 = items d2 \<Longrightarrow> party_prices d1 = party_prices d2 \<Longrightarrow>
     invoice_line_of fp d1 pid nv dl = invoice_line_of fp d2 pid nv dl"
  by (simp add: invoice_line_of_def apply_party_price_def)

lemma invoice_line_of_None:
  "find (\<lambda>it. it_id it = dcl_item_id dl) (items d) = None \<Longrightarrow>
     invoice_line_of fp d pid nv dl = None"
  by (simp add: invoice_line_of_def)

lemma invoice_line_of_Some:
  "find (\<lambda>it. it_id it = dcl_item_id dl) (items d) = Some it \<Longrightarrow>
     invoice_line_of fp d pid nv dl =
       Some \<lparr> il_invoice_id = nv, il_item_id = it_id it, il_qty = dcl_qty dl,
              il_rate = fst (apply_party_price fp d pid it),
              il_gst_percent = it_gst_percent it,
              il_discount_percent = snd (apply_party_price fp d pid it) \<rparr>"
  by (simp add: invoice_line_of_def)

lemma resolves_None:
  "find (\<lambda>it. it_id it = dcl_item_id dl) (items d) = None \<Longrightarrow> \<not> resolves d dl"
  by (simp add: resolves_def)

lemma resolves_Some:
  "find (\<lambda>it. it_id it = dcl_item_id dl) (items d) = Some it \<Longrightarrow> resolves d dl"
  by (simp add: resolves_def)

lemma copy_lines_invoice_lines:
  "invoice_lines (working (copy_lines fp nv pid ls s)) =
     invoice_lines (working s) @ List.map_filter (invoice_line_of fp (working s) pid nv) ls"
proof (induction ls arbitrary: s)
  case Nil
  then show ?case by simp
next
  case (Cons dl ls)
  show ?case
  proof (cases "find (\<lambda>it. it_id it = dcl_item_id dl) (items (working s))")
    case None
    then show ?thesis
      by (simp add: Cons.IH invoice_line_of_None)
  next
    case (Some it)
    let ?row = "\<lparr> il_invoice_id = nv, il_item_id = it_id it, il_qty = dcl_qty dl,
                  il_rate = fst (apply_party_price fp (working s) pid it),
                  il_gst_percent = it_gst_percent it,
                  il_discount_percent = snd (apply_party_price fp (working s) pid it) \<rparr>"
    let ?s = "s \<lparr> working := (working s) \<lparr> invoice_lines := invoice_lines (working s) @ [?row] \<rparr> \<rparr>"
    have c: "invoice_line_of fp (working ?s) pid nv dl' = invoice_line_of fp (working s) pid nv dl'"
      for dl'
      by (rule invoice_line_of_cong) simp_all
    have step: "copy_lines fp nv pid (dl # ls) s = copy_lines fp nv pid ls ?s"
      using Some by (simp add: Let_def)
    have "invoice_lines (working (copy_lines fp nv pid ls ?s)) =
        invoice_lines (working ?s) @ List.map_filter (invoice_line_of fp (working ?s) pid nv) ls"
      by (rule Cons.IH)
    also have "List.map_filter (invoice_line_of fp (working ?s) pid nv) ls =
        List.map_filter (invoice_line_of fp (working s) pid nv) ls"
      by (rule map_filter_cong_set) (rule c)
    also have "invoice_lines (working ?s) = invoice_lines (working s) @ [?row]"
      by simp
    finally show ?thesis
      unfolding step by (simp add: invoice_line_of_Some [OF Some])
  qed
qed

lemma copy_lines_payments: "payments (working (copy_lines fp nv pid ls s)) = payments (working s)"
proof (induction ls arbitrary: s)
  case Nil
  then show ?case by simp
next
  case (Cons dl ls)
  show ?case
    by (cases "find (\<lambda>it. it_id it = dcl_item_id dl) (items (working s))")
      (simp_all add: Cons.IH Let_def)
qed

lemma copy_lines_invoices: "invoices (working (copy_lines fp nv pid ls s)) = invoices (working s)"
proof (induction ls arbitrary: s)
  case Nil
  then show ?case by simp
next
  case (Cons dl ls)
  show ?case
    by (cases "find (\<lambda>it. it_id it = dcl_item_id dl) (items (working s))")
      (simp_all add: Cons.IH Let_def)
qed

lemma issue_invoice_invoices:
  "invoices (snd (issue_invoice fp no dc so pa idate d)) =
     invoices d @
       [\<lparr> inv_id = next_id (map inv_id (invoices d)), inv_invoice_no = no,
           inv_dc_id = dc, inv_party_id = p_id pa, inv_warehouse_id = so_warehouse_id so,
           inv_invoice_date = idate, inv_place_of_supply_state = p_state pa,
           inv_status = ''OPEN'' \<rparr>]"
  by (simp add: issue_invoice_def Let_def commit_def open_session_def copy_lines_invoices)

lemma issue_invoice_lines:
  "invoice_lines (snd (issue_invoice fp no dc so pa idate d)) =
     invoice_lines d @
       List.map_filter (invoice_line_of fp d (p_id pa) (next_id (map inv_id (invoices d))))
         (filter (\<lambda>l. dcl_dc_id l = dc) (challan_lines d))"
proof -
  let ?nv = "\<lparr> inv_id = next_id (map inv_id (invoices d)),
                 inv_invoice_no = no,
                 inv_dc_id = dc, inv_party_id = p_id pa,
                 inv_warehouse_id = so_warehouse_id so,
                 inv_invoice_date = idate,
                 inv_place_of_supply_state = p_state pa,
                 inv_status = ''OPEN'' \<rparr>"
  let ?d1 = "d \<lparr> invoices := invoices d @ [?nv] \<rparr>"
  let ?s1 = "commit ((open_session d) \<lparr> working := ?d1 \<rparr>)"
  let ?ls = "filter (\<lambda>l. dcl_dc_id l = dc) (challan_lines d)"
  have w: "working ?s1 = ?d1"
    by (simp add: commit_def open_session_def)
  have c: "invoice_line_of fp ?d1 (p_id pa) n dl = invoice_line_of fp d (p_id pa) n dl" for n dl
    by (rule invoice_line_of_cong) simp_all
  have "invoice_lines (snd (issue_invoice fp no dc so pa idate d)) =
      invoice_lines (working (copy_lines fp (inv_id ?nv) (p_id pa) ?ls ?s1))"
    by (simp add: issue_invoice_def Let_def commit_def)
  also have "\<dots> = invoice_lines (working ?s1) @
      List.map_filter (invoice_line_of fp (working ?s1) (p_id pa) (inv_id ?nv)) ?ls"
    by (rule copy_lines_invoice_lines)
  also have "\<dots> = invoice_lines d @
      List.map_filter (invoice_line_of fp ?d1 (p_id pa) (next_id (map inv_id (invoices d)))) ?ls"
    unfolding w by simp
  also have "List.map_filter (invoice_line_of fp ?d1 (p_id pa) (next_id (map inv_id (invoices d)))) ?ls
      = List.map_filter (invoice_line_of fp d (p_id pa) (next_id (map inv_id (invoices d)))) ?ls"
    by (rule map_filter_cong_set) (rule c)
  finally show ?thesis .
qed

lemma issue_invoice_payments:
  "payments (snd (issue_invoice fp no dc so pa idate d)) = payments d"
  by (simp add: issue_invoice_def Let_def commit_def open_session_def copy_lines_payments)

lemma projection_skips:
  "projection_loop fp d pid (filter (resolves d) ls) acc = projection_loop fp d pid ls acc"
proof (induction ls arbitrary: acc)
  case Nil
  then show ?case by simp
next
  case (Cons dl ls)
  obtain a b where acc: "acc = (a, b)"
    by (cases acc)
  show ?case
  proof (cases "find (\<lambda>it. it_id it = dcl_item_id dl) (items d)")
    case None
    then show ?thesis
      unfolding acc by (simp add: resolves_None Cons.IH)
  next
    case (Some it)
    then show ?thesis
      unfolding acc by (simp add: resolves_Some Cons.IH Let_def)
  qed
qed

lemma copied_skips:
  "List.map_filter (invoice_line_of fp d pid nv) (filter (resolves d) ls) =
     List.map_filter (invoice_line_of fp d pid nv) ls"
proof (induction ls)
  case Nil
  then show ?case by simp
next
  case (Cons dl ls)
  show ?case
  proof (cases "find (\<lambda>it. it_id it = dcl_item_id dl) (items d)")
    case None
    then show ?thesis
      by (simp add: resolves_None Cons.IH invoice_line_of_None)
  next
    case (Some it)
    then show ?thesis
      by (simp add: resolves_Some Cons.IH invoice_line_of_Some)
  qed
qed

lemma copied_length:
  "length (List.map_filter (invoice_line_of fp d pid nv) ls) = length (filter (resolves d) ls)"
proof (induction ls)
  case Nil
  then show ?case by simp
next
  case (Cons dl ls)
  show ?case
  proof (cases "find (\<lambda>it. it_id it = dcl_item_id dl) (items d)")
    case None
    then show ?thesis
      by (simp add: resolves_None Cons.IH invoice_line_of_None)
  next
    case (Some it)
    then show ?thesis
      by (simp add: resolves_Some Cons.IH invoice_line_of_Some)
  qed
qed

lemma totals_of_copied:
  "totals_loop fp (List.map_filter (invoice_line_of fp d pid nv) ls) acc =
     projection_loop fp d pid ls acc"
proof (induction ls arbitrary: acc)
  case Nil
  then show ?case by (cases acc) simp
next
  case (Cons dl ls)
  obtain a b where acc: "acc = (a, b)"
    by (cases acc)
  show ?case
  proof (cases "find (\<lambda>it. it_id it = dcl_item_id dl) (items d)")
    case None
    then show ?thesis
      unfolding acc by (simp add: Cons.IH invoice_line_of_None)
  next
    case (Some it)
    then show ?thesis
      unfolding acc by (simp add: Cons.IH invoice_line_of_Some Let_def)
  qed
qed

lemma copied_invoice_id:
  "filter (\<lambda>l. il_invoice_id l = nv) (List.map_filter (invoice_line_of fp d pid nv) ls) =
     List.map_filter (invoice_line_of fp d pid nv) ls"
proof (induction ls)
  case Nil
  then show ?case by simp
next
  case (Cons dl ls)
  show ?case
  proof (cases "find (\<lambda>it. it_id it = dcl_item_id dl) (items d)")
    case None
    then show ?thesis
      by (simp add: Cons.IH invoice_line_of_None)
  next
    case (Some it)
    then show ?thesis
      by (simp add: Cons.IH invoice_line_of_Some)
  qed
qed

lemma next_id_fresh: "next_id ids \<notin> set ids"
proof (cases "ids = []")
  case True
  then show ?thesis by simp
next
  case False
  then have "py_max_list ids = Max (set ids)"
    by (rule py_max_list_Max)
  moreover have "x \<le> Max (set ids)" if "x \<in> set ids" for x
    using that by simp
  ultimately show ?thesis
    using False by (fastforce simp: next_id_def)
qed

lemma invoice_create_passes:
  assumes "find (\<lambda>c. dc_id c = dc) (challans d) = Some c"
    and "dc_status c = ''OPEN''"
    and "find (\<lambda>ord. so_id ord = dc_so_id c) (sales_orders d) = Some so"
    and "find (\<lambda>p. p_id p = so_party_id so) (parties d) = Some pa"
    and "credit_control fp today d dc pa = None"
    and "next_no ''INV'' period d = Inr no"
  shows "invoice_create fp today period dc (Some idate) d = issue_invoice fp no dc so pa idate d"
  using assms by (simp add: invoice_create_found)

text \<open>
  Claim C10: a challan line whose item is no longer in the item table is passed over by
  \<^verbatim>\<open>invoice_create\<close>, in the projection of the credit check and in the copy of the
  lines: the invoice is created without such lines, and no error is raised for them.

  The theorem is about an open challan whose order and party are found, whose party
  passes credit control and for which \<^verbatim>\<open>next_no\<close> returns a number. The projected
  total is that of the lines that resolve. The database that the handler leaves
  committed holds the new invoice header, one invoice line for each challan line that
  resolves and none for the others, and the challan is invoiced. No error is raised for
  the lines that do not resolve: the handler ends as it does whenever it has written an
  invoice, with the \<^verbatim>\<open>DetachedInstanceError\<close> of \<open>issue_invoice\<close>, which comes
  after the last commit.
\<close>

theorem invoice_create_skips_unresolved:
  assumes "find (\<lambda>c. dc_id c = dc) (challans d) = Some c"
    and "dc_status c = ''OPEN''"
    and "find (\<lambda>ord. so_id ord = dc_so_id c) (sales_orders d) = Some so"
    and "find (\<lambda>p. p_id p = so_party_id so) (parties d) = Some pa"
    and "credit_control fp today d dc pa = None"
    and "next_no ''INV'' period d = Inr no"
  shows
    "projected_total fp d (p_id pa) (filter (\<lambda>l. dcl_dc_id l = dc) (challan_lines d)) =
       projected_total fp d (p_id pa)
         (filter (resolves d) (filter (\<lambda>l. dcl_dc_id l = dc) (challan_lines d)))
     \<and> invoices (snd (invoice_create fp today period dc (Some idate) d)) =
         invoices d @
           [\<lparr> inv_id = next_id (map inv_id (invoices d)), inv_invoice_no = no,
               inv_dc_id = dc, inv_party_id = p_id pa, inv_warehouse_id = so_warehouse_id so,
               inv_invoice_date = idate, inv_place_of_supply_state = p_state pa,
               inv_status = ''OPEN'' \<rparr>]
     \<and> invoice_lines (snd (invoice_create fp today period dc (Some idate) d)) =
         invoice_lines d @
           List.map_filter (invoice_line_of fp d (p_id pa) (next_id (map inv_id (invoices d))))
             (filter (resolves d) (filter (\<lambda>l. dcl_dc_id l = dc) (challan_lines d)))
     \<and> length (invoice_lines (snd (invoice_create fp today period dc (Some idate) d))) =
         length (invoice_lines d) +
           length (filter (resolves d) (filter (\<lambda>l. dcl_dc_id l = dc) (challan_lines d)))
     \<and> challans (snd (invoice_create fp today period dc (Some idate) d)) =
         update_first (\<lambda>x. dc_id x = dc) (\<lambda>x. x \<lparr> dc_status := ''INVOICED'' \<rparr>) (challans d)
     \<and> fst (invoice_create fp today period dc (Some idate) d) = Inl DetachedInstanceError"
proof -
  have R: "invoice_create fp today period dc (Some idate) d =
      issue_invoice fp no dc so pa idate d"
    using assms by (rule invoice_create_passes)
  let ?ls = "filter (\<lambda>l. dcl_dc_id l = dc) (challan_lines d)"
  let ?n = "next_id (map inv_id (invoices d))"
  have a: "fst (issue_invoice fp no dc so pa idate d) = Inl DetachedInstanceError"
    by (rule issue_invoice_raises)
  have b: "invoice_lines (snd (issue_invoice fp no dc so pa idate d)) =
      invoice_lines d @ List.map_filter (invoice_line_of fp d (p_id pa) ?n) (filter (resolves d) ?ls)"
    by (simp only: issue_invoice_lines copied_skips)
  have c: "length (invoice_lines (snd (issue_invoice fp no dc so pa idate d))) =
      length (invoice_lines d) + length (filter (resolves d) ?ls)"
    by (simp only: issue_invoice_lines length_append copied_length)
  have e: "projected_total fp d (p_id pa) ?ls =
      projected_total fp d (p_id pa) (filter (resolves d) ?ls)"
    by (simp only: projected_total_def projection_skips)
  note h = issue_invoice_invoices [of fp no dc so pa idate d]
  note f = issue_invoice_challans [of fp no dc so pa idate d]
  from e h b c f a show ?thesis
    unfolding R by (intro conjI)
qed

text \<open>The challan with the lines of item 1 and of the missing item 9 projects 181.44,
  the amount of the line of item 1, which is within the limit 500; it becomes invoice 1
  with the one line of item 1.\<close>

theorem invoice_create_skips_witness:
  "map dcl_item_id (filter (\<lambda>l. dcl_dc_id l = 1) (challan_lines missing_item_db)) = [1, 9]
   \<and> map it_id (items missing_item_db) = [1]
   \<and> f_round2 binary64 (projected_total binary64 missing_item_db 1
        (filter (\<lambda>l. dcl_dc_id l = 1) (challan_lines missing_item_db))) = fl (18144 / 100)
   \<and> invoices missing_item_db = []
   \<and> invoice_lines missing_item_db = []
   \<and> invoices (snd (invoice_create binary64 739010 ''202501'' 1 (Some 739010) missing_item_db)) =
       [\<lparr> inv_id = 1, inv_invoice_no = ''INV-202501-0001'', inv_dc_id = 1, inv_party_id = 1,
          inv_warehouse_id = 1, inv_invoice_date = 739010,
          inv_place_of_supply_state = Some ''Uttar Pradesh'', inv_status = ''OPEN'' \<rparr>]
   \<and> invoice_lines (snd (invoice_create binary64 739010 ''202501'' 1 (Some 739010) missing_item_db)) =
       [\<lparr> il_invoice_id = 1, il_item_id = 1, il_qty = 2, il_rate = 90, il_gst_percent = 12,
          il_discount_percent = 10 \<rparr>]
   \<and> map dc_status
         (challans (snd (invoice_create binary64 739010 ''202501'' 1 (Some 739010) missing_item_db))) =
       [''INVOICED'']
   \<and> fst (invoice_create binary64 739010 ''202501'' 1 (Some 739010) missing_item_db) =
       Inl DetachedInstanceError"
proof -
  let ?c = "\<lparr> dc_id = 1, dc_no = ''DC-202501-0001'', dc_so_id = 1, dc_status = ''OPEN'' \<rparr>"
  let ?so = "\<lparr> so_id = 1, so_no = ''SO-202501-0001'', so_party_id = 1, so_warehouse_id = 1,
            so_status = ''DISPATCHED'' \<rparr>"
  let ?pa = "\<lparr> p_id = 1, p_state = Some ''Uttar Pradesh'', p_credit_limit = 500,
            p_payment_terms_days = 30, p_is_blocked = False \<rparr>"
  let ?R = "invoice_create binary64 739010 ''202501'' 1 (Some 739010) missing_item_db"
  have open_c: "dc_status ?c = ''OPEN''"
    by simp
  have c: "find (\<lambda>c. dc_id c = 1) (challans missing_item_db) = Some ?c"
    and s: "find (\<lambda>ord. so_id ord = dc_so_id ?c) (sales_orders missing_item_db) = Some ?so"
    and p: "find (\<lambda>p. p_id p = so_party_id ?so) (parties missing_item_db) = Some ?pa"
    and cc: "credit_control binary64 739010 missing_item_db 1 ?pa = None"
    and no: "next_no ''INV'' ''202501'' missing_item_db = Inr ''INV-202501-0001''"
    by code_simp+
  note t = invoice_create_skips_unresolved [OF c open_c s p cc no, of 739010]
  have n: "next_id (map inv_id (invoices missing_item_db)) = 1"
    by code_simp
  have i: "invoices missing_item_db = []" "invoice_lines missing_item_db = []"
    by code_simp+
  have l: "invoice_lines missing_item_db @
      List.map_filter (invoice_line_of binary64 missing_item_db (p_id ?pa) 1)
        (filter (resolves missing_item_db)
           (filter (\<lambda>l. dcl_dc_id l = 1) (challan_lines missing_item_db))) =
      [\<lparr> il_invoice_id = 1, il_item_id = 1, il_qty = 2, il_rate = 90, il_gst_percent = 12,
          il_discount_percent = 10 \<rparr>]"
    by code_simp
  have m: "map dcl_item_id (filter (\<lambda>l. dcl_dc_id l = 1) (challan_lines missing_item_db)) = [1, 9]"
    "map it_id (items missing_item_db) = [1]"
    by code_simp+
  have u: "map dc_status (update_first (\<lambda>x. dc_id x = 1) (\<lambda>x. x \<lparr> dc_status := ''INVOICED'' \<rparr>)
      (challans missing_item_db)) = [''INVOICED'']"
    by code_simp
  from t have "invoices (snd ?R) =
       invoices missing_item_db @
         [\<lparr> inv_id = 1, inv_invoice_no = ''INV-202501-0001'',
             inv_dc_id = 1, inv_party_id = p_id ?pa, inv_warehouse_id = so_warehouse_id ?so,
             inv_invoice_date = 739010, inv_place_of_supply_state = p_state ?pa,
             inv_status = ''OPEN'' \<rparr>]"
    unfolding n by (elim conjE)
  then have h: "invoices (snd ?R) =
       [\<lparr> inv_id = 1, inv_invoice_no = ''INV-202501-0001'', inv_dc_id = 1, inv_party_id = 1,
          inv_warehouse_id = 1, inv_invoice_date = 739010,
          inv_place_of_supply_state = Some ''Uttar Pradesh'', inv_status = ''OPEN'' \<rparr>]"
    by (simp add: i)
  from t have b: "invoice_lines (snd ?R) =
       [\<lparr> il_invoice_id = 1, il_item_id = 1, il_qty = 2, il_rate = 90, il_gst_percent = 12,
          il_discount_percent = 10 \<rparr>]"
    unfolding n l by (elim conjE)
  from t have f: "map dc_status (challans (snd ?R)) = [''INVOICED'']"
    using u by (simp only:)
  from t have a: "fst ?R = Inl DetachedInstanceError"
    by (elim conjE)
  have "f_round2 binary64 (projected_total binary64 missing_item_db (p_id ?pa)
        (filter (resolves missing_item_db)
           (filter (\<lambda>l. dcl_dc_id l = 1) (challan_lines missing_item_db)))) = fl (18144 / 100)"
    by code_simp
  moreover from t
  have "projected_total binary64 missing_item_db (p_id ?pa)
        (filter (\<lambda>l. dcl_dc_id l = 1) (challan_lines missing_item_db)) =
      projected_total binary64 missing_item_db (p_id ?pa)
        (filter (resolves missing_item_db)
           (filter (\<lambda>l. dcl_dc_id l = 1) (challan_lines missing_item_db)))"
    by (rule conjunct1)
  ultimately have e: "f_round2 binary64 (projected_total binary64 missing_item_db 1
        (filter (\<lambda>l. dcl_dc_id l = 1) (challan_lines missing_item_db))) = fl (18144 / 100)"
    by simp
  from m e i h b f a show ?thesis
    by (intro conjI)
qed

text \<open>
  Claim C8: for an open challan that passes credit control, the projected total of the
  credit check, rounded to two decimals, is the total that \<^verbatim>\<open>invoice_totals\<close> returns
  for the invoice that \<^verbatim>\<open>invoice_create\<close> then creates from the challan. Within the
  one request the item and price tables do not change between the projection and the
  copy.

  The theorem is about an open challan whose order and party are found, whose party
  passes credit control and for which \<^verbatim>\<open>next_no\<close> returns a number: the handler adds
  the invoice header of this challan, and the total of that invoice is the rounded
  projected total. The last assumption is the foreign key of the invoice lines: every
  line belongs to an invoice of the table, so none carries the new invoice's id already.
\<close>

theorem projected_total_matches_invoice_total:
  assumes "find (\<lambda>c. dc_id c = dc) (challans d) = Some c"
    and "dc_status c = ''OPEN''"
    and "find (\<lambda>ord. so_id ord = dc_so_id c) (sales_orders d) = Some so"
    and "find (\<lambda>p. p_id p = so_party_id so) (parties d) = Some pa"
    and "credit_control fp today d dc pa = None"
    and "next_no ''INV'' period d = Inr no"
    and "\<forall>l\<in>set (invoice_lines d). il_invoice_id l \<in> set (map inv_id (invoices d))"
  shows
    "invoices (snd (invoice_create fp today period dc (Some idate) d)) =
       invoices d @
         [\<lparr> inv_id = next_id (map inv_id (invoices d)), inv_invoice_no = no,
             inv_dc_id = dc, inv_party_id = p_id pa, inv_warehouse_id = so_warehouse_id so,
             inv_invoice_date = idate, inv_place_of_supply_state = p_state pa,
             inv_status = ''OPEN'' \<rparr>]
     \<and> t_total (invoice_totals fp (snd (invoice_create fp today period dc (Some idate) d))
          (next_id (map inv_id (invoices d)))) =
         f_round2 fp
           (projected_total fp d (p_id pa)
              (filter (\<lambda>l. dcl_dc_id l = dc) (challan_lines d)))"
proof -
  let ?ls = "filter (\<lambda>l. dcl_dc_id l = dc) (challan_lines d)"
  let ?n = "next_id (map inv_id (invoices d))"
  let ?d' = "snd (invoice_create fp today period dc (Some idate) d)"
  have R: "invoice_create fp today period dc (Some idate) d =
      issue_invoice fp no dc so pa idate d"
    using assms(1-6) by (rule invoice_create_passes)
  have h: "invoices ?d' =
       invoices d @
         [\<lparr> inv_id = ?n, inv_invoice_no = no,
             inv_dc_id = dc, inv_party_id = p_id pa, inv_warehouse_id = so_warehouse_id so,
             inv_invoice_date = idate, inv_place_of_supply_state = p_state pa,
             inv_status = ''OPEN'' \<rparr>]"
    unfolding R by (rule issue_invoice_invoices)
  have lines: "invoice_lines ?d' =
      invoice_lines d @ List.map_filter (invoice_line_of fp d (p_id pa) ?n) ?ls"
    unfolding R by (rule issue_invoice_lines)
  have old: "filter (\<lambda>l. il_invoice_id l = ?n) (invoice_lines d) = []"
    using assms(7) next_id_fresh [of "map inv_id (invoices d)"]
    unfolding filter_empty_conv by metis
  have new: "filter (\<lambda>l. il_invoice_id l = ?n) (invoice_lines ?d') =
      List.map_filter (invoice_line_of fp d (p_id pa) ?n) ?ls"
    by (simp add: lines old copied_invoice_id)
  have "t_total (invoice_totals fp ?d' ?n) = f_round2 fp (projected_total fp d (p_id pa) ?ls)"
    by (simp add: invoice_totals_def Let_def new totals_of_copied projected_total_def)
  with h show ?thesis
    by (intro conjI)
qed

text \<open>The credit example with a price override of 10 percent and a tax of 12 percent:
  three pieces at 45 less 10 percent are 121.50, the tax on them is 14.58, and the
  projected total and the total of the new invoice 2 are both 136.08.\<close>

theorem projected_total_witness:
  "f_round2 binary64 (projected_total binary64 discount_db 1
        (filter (\<lambda>l. dcl_dc_id l = 2) (challan_lines discount_db))) = fl (13608 / 100)
   \<and> map inv_dc_id
        (invoices (snd (invoice_create binary64 739010 ''202501'' 2 (Some 739010) discount_db))) =
       [1, 2]
   \<and> map inv_id
        (invoices (snd (invoice_create binary64 739010 ''202501'' 2 (Some 739010) discount_db))) =
       [1, 2]
   \<and> t_total (invoice_totals binary64
        (snd (invoice_create binary64 739010 ''202501'' 2 (Some 739010) discount_db)) 2) =
       fl (13608 / 100)"
proof -
  let ?c = "\<lparr> dc_id = 2, dc_no = ''DC-202501-0002'', dc_so_id = 2, dc_status = ''OPEN'' \<rparr>"
  let ?so = "\<lparr> so_id = 2, so_no = ''SO-202501-0002'', so_party_id = 1, so_warehouse_id = 1,
            so_status = ''DISPATCHED'' \<rparr>"
  let ?R = "invoice_create binary64 739010 ''202501'' 2 (Some 739010) discount_db"
  have open_c: "dc_status ?c = ''OPEN''"
    by simp
  have c: "find (\<lambda>c. dc_id c = 2) (challans discount_db) = Some ?c"
    and s: "find (\<lambda>ord. so_id ord = dc_so_id ?c) (sales_orders discount_db) = Some ?so"
    and p: "find (\<lambda>p. p_id p = so_party_id ?so) (parties discount_db) = Some credit_party"
    and cc: "credit_control binary64 739010 discount_db 2 credit_party = None"
    and no: "next_no ''INV'' ''202501'' discount_db = Inr ''INV-202501-0002''"
    and k: "\<forall>l\<in>set (invoice_lines discount_db).
        il_invoice_id l \<in> set (map inv_id (invoices discount_db))"
    by code_simp+
  note t = projected_total_matches_invoice_total [OF c open_c s p cc no k, of 739010]
  have n: "next_id (map inv_id (invoices discount_db)) = 2"
    by code_simp
  have v: "f_round2 binary64 (projected_total binary64 discount_db (p_id credit_party)
        (filter (\<lambda>l. dcl_dc_id l = 2) (challan_lines discount_db))) = fl (13608 / 100)"
    by code_simp
  have v': "f_round2 binary64 (projected_total binary64 discount_db 1
        (filter (\<lambda>l. dcl_dc_id l = 2) (challan_lines discount_db))) = fl (13608 / 100)"
    by code_simp
  have i: "map inv_dc_id (invoices discount_db) = [1]" "map inv_id (invoices discount_db) = [1]"
    by code_simp+
  from t have "t_total (invoice_totals binary64 (snd ?R) 2) = fl (13608 / 100)"
    unfolding n v by (rule conjunct2)
  moreover from t have "invoices (snd ?R) =
       invoices discount_db @
         [\<lparr> inv_id = 2, inv_invoice_no = ''INV-202501-0002'',
             inv_dc_id = 2, inv_party_id = p_id credit_party,
             inv_warehouse_id = so_warehouse_id ?so,
             inv_invoice_date = 739010, inv_place_of_supply_state = p_state credit_party,
             inv_status = ''OPEN'' \<rparr>]"
    unfolding n by (rule conjunct1)
  then have "map inv_dc_id (invoices (snd ?R)) = [1, 2]"
    "map inv_id (invoices (snd ?R)) = [1, 2]"
    by (simp_all add: i)
  ultimately show ?thesis
    using v' by (intro conjI)
qed

end
